theory Spec2Isabelle
  imports Main "HOL-Library.Sublist"
begin

section \<open>Values, exceptions and the outside world\<close>

text \<open>
  The two programs, \<^verbatim>\<open>athena-table-creator.py\<close> (tables created through the Glue
  catalog API) and \<^verbatim>\<open>athena-table-creator-via-athena.py\<close> (tables created by
  queries sent to Athena), work on what \<^verbatim>\<open>json.load\<close> returns. A decoded value is
  \<^verbatim>\<open>None\<close>, a bool, an int, a float, a str, a list or a dict with str keys. The
  programs never compute with a float, so a float is kept as its literal text. A dict
  is an association list with distinct keys, as \<^verbatim>\<open>json.load\<close> builds it.
\<close>

datatype json =
    JNull
  | JBool bool
  | JInt int
  | JFloat string
  | JStr string
  | JArr "json list"
  | JObj "(string \<times> json) list"

text \<open>
  The exceptions the programs raise or receive. All of them are subclasses of
  \<^verbatim>\<open>Exception\<close>. \<open>ClientError code msg\<close> is botocore's: \<open>code\<close> is
  \<^verbatim>\<open>e.response.get('Error', {}).get('Code')\<close> and \<open>msg\<close> is \<^verbatim>\<open>str(e)\<close>.
  \<open>Exception name msg\<close> stands for any other exception class \<open>name\<close>.
\<close>

datatype exn =
    KeyError string
  | TypeError string
  | ValueError string
  | AttributeError string
  | ClientError "string option" string
  | Exception string string

text \<open>A text between single quotes, as \<^verbatim>\<open>repr\<close> prints a plain str.\<close>

definition quoted :: "string \<Rightarrow> string" where
  "quoted s = [CHR 0x27] @ s @ [CHR 0x27]"

fun exn_str :: "exn \<Rightarrow> string" where
  "exn_str (KeyError k) = quoted k"
| "exn_str (TypeError m) = m"
| "exn_str (ValueError m) = m"
| "exn_str (AttributeError m) = m"
| "exn_str (ClientError c m) = m"
| "exn_str (Exception n m) = m"

fun type_name :: "json \<Rightarrow> string" where
  "type_name JNull = ''NoneType''"
| "type_name (JBool b) = ''bool''"
| "type_name (JInt i) = ''int''"
| "type_name (JFloat f) = ''float''"
| "type_name (JStr s) = ''str''"
| "type_name (JArr xs) = ''list''"
| "type_name (JObj d) = ''dict''"

text \<open>
  \<^verbatim>\<open>v[key]\<close> with a str key: a dict looks the key up and raises \<^verbatim>\<open>KeyError\<close>
  when it is missing; every other value raises \<^verbatim>\<open>TypeError\<close> (the message texts
  are CPython 3.12's; nothing below depends on them).
\<close>

fun subscript :: "json \<Rightarrow> string \<Rightarrow> exn + json" where
  "subscript (JObj d) key =
     (case map_of d key of None \<Rightarrow> Inl (KeyError key) | Some v \<Rightarrow> Inr v)"
| "subscript (JStr s) key = Inl (TypeError (''string indices must be integers, not '' @ quoted ''str''))"
| "subscript (JArr xs) key =
     Inl (TypeError ''list indices must be integers or slices, not str'')"
| "subscript v key = Inl (TypeError (quoted (type_name v) @ '' object is not subscriptable''))"

text \<open>\<^verbatim>\<open>v.get(key, dflt)\<close>: only a dict has the method.\<close>

fun dict_get :: "json \<Rightarrow> string \<Rightarrow> json \<Rightarrow> exn + json" where
  "dict_get (JObj d) key dflt =
     (case map_of d key of None \<Rightarrow> Inr dflt | Some v \<Rightarrow> Inr v)"
| "dict_get v key dflt =
     Inl (AttributeError (quoted (type_name v) @ '' object has no attribute '' @ quoted ''get''))"

text \<open>
  \<^verbatim>\<open>for x in v\<close> and \<^verbatim>\<open>len(v)\<close>: a list gives its elements, a str its
  characters as one-character strs, a dict its keys; nothing else is iterable.
\<close>

fun py_iter :: "json \<Rightarrow> exn + json list" where
  "py_iter (JArr xs) = Inr xs"
| "py_iter (JStr s) = Inr (map (\<lambda>c. JStr [c]) s)"
| "py_iter (JObj d) = Inr (map (\<lambda>kv. JStr (fst kv)) d)"
| "py_iter v = Inl (TypeError (quoted (type_name v) @ '' object is not iterable''))"

text \<open>
  A value inside an f-string is formatted by \<^verbatim>\<open>str()\<close>: a str is itself. The text
  Python prints for the other values (\<^verbatim>\<open>repr\<close> of floats, of nested strings) is not
  modelled; it is the parameter \<open>repr\<close> of the model.
\<close>

definition format_value :: "(json \<Rightarrow> string) \<Rightarrow> json \<Rightarrow> string" where
  "format_value rp v = (case v of JStr s \<Rightarrow> s | _ \<Rightarrow> rp v)"

text \<open>
  The table definition handed to Glue (the dict literal \<^verbatim>\<open>table_input\<close>). Its key
  \<^verbatim>\<open>Name\<close> is the field \<open>TableName\<close> here, since a column has a \<^verbatim>\<open>Name\<close> too.
  The values taken from a configuration are passed on as they are, whatever their type.
\<close>

record column =
  Name :: json
  Type :: json

record storage_descriptor =
  Columns :: "column list"
  Location :: string

record table_input =
  TableName :: json
  DatabaseName :: string
  Description :: json
  TableType :: string
  StorageDescriptor :: storage_descriptor

text \<open>
  What the programs do to the outside world, in order: the calls to the two AWS
  clients with their arguments, the opening of the configuration file, and the log
  records. \<open>LogTraceback e\<close> is \<^verbatim>\<open>logger.error(traceback.format_exc())\<close> while \<open>e\<close>
  is handled; the text of the traceback is not modelled.
\<close>

datatype level = INFO | WARNING | ERROR

datatype event =
    GlueCreateTable string table_input
  | AthenaStartQueryExecution string string string
  | OpenTableConfigs
  | Log level string
  | LogTraceback exn

text \<open>
  The state threaded through every function: the state \<open>world\<close> of the remote
  services, of a type the model leaves open, and the events so far.
\<close>

record 'w io =
  world :: 'w
  trace :: "event list"

definition emit :: "event \<Rightarrow> 'w io \<Rightarrow> 'w io" where
  "emit ev s = s\<lparr>trace := trace s @ [ev]\<rparr>"

definition log :: "level \<Rightarrow> string \<Rightarrow> 'w io \<Rightarrow> 'w io" where
  "log lv msg s = emit (Log lv msg) s"

text \<open>
  The surroundings of a run, none of them code of the repository:
  \<^item> \<open>repr\<close>, see \<open>format_value\<close>;
  \<^item> \<open>glue_create_table w DatabaseName TableInput\<close>, boto3's
    \<^verbatim>\<open>glue_client.create_table\<close>: it returns (\<open>None\<close>) or raises (\<open>Some e\<close>), and
    leaves the services in a new state;
  \<^item> \<open>athena_start_query_execution w QueryString Database OutputLocation\<close>, boto3's
    \<^verbatim>\<open>athena_client.start_query_execution\<close>, likewise (its response is not used);
  \<^item> \<open>table_configs_json\<close>, the outcome of opening \<^verbatim>\<open>table_configs.json\<close> and of
    \<^verbatim>\<open>json.load\<close> on it: the decoded document, or the exception raised.
\<close>

record 'w services =
  repr :: "json \<Rightarrow> string"
  glue_create_table :: "'w \<Rightarrow> string \<Rightarrow> table_input \<Rightarrow> exn option \<times> 'w"
  athena_start_query_execution :: "'w \<Rightarrow> string \<Rightarrow> string \<Rightarrow> string \<Rightarrow> exn option \<times> 'w"
  table_configs_json :: "exn + json"

text \<open>
  The module-level variables, read from the environment when the module is imported.
  \<^verbatim>\<open>RESULTS_BUCKET\<close> exists in the Athena program only.
\<close>

record globals =
  DATABASE :: string
  DATA_BUCKET :: string

record globals_via_athena = globals +
  RESULTS_BUCKET :: string

text \<open>The dict \<^verbatim>\<open>create_tables\<close> returns.\<close>

record report =
  success_count :: nat
  failed_tables :: "json list"
  total_tables :: nat

section \<open>athena-table-creator.py\<close>

text \<open>The body of the list comprehension of \<^verbatim>\<open>parse_column_definitions\<close>.\<close>

fun column_definitions :: "json list \<Rightarrow> exn + column list" where
  "column_definitions [] = Inr []"
| "column_definitions (col # cols) =
     (case subscript col ''name'' of Inl e \<Rightarrow> Inl e | Inr n \<Rightarrow>
      (case subscript col ''type'' of Inl e \<Rightarrow> Inl e | Inr t \<Rightarrow>
       (case column_definitions cols of Inl e \<Rightarrow> Inl e | Inr cs \<Rightarrow>
          Inr (\<lparr>Name = n, Type = t\<rparr> # cs))))"

definition parse_column_definitions :: "json \<Rightarrow> exn + column list" where
  "parse_column_definitions columns_config =
     (case py_iter columns_config of Inl e \<Rightarrow> Inl e | Inr cols \<Rightarrow> column_definitions cols)"

text \<open>
  The dict literal \<^verbatim>\<open>table_input\<close> of \<^verbatim>\<open>create_table\<close>, its entries evaluated in
  the order they are written: name, description, columns, location.
\<close>

definition make_table_input ::
  "'w services \<Rightarrow> 'g globals_scheme \<Rightarrow> json \<Rightarrow> exn + table_input" where
  "make_table_input sv g table_config =
     (case subscript table_config ''name'' of Inl e \<Rightarrow> Inl e | Inr name \<Rightarrow>
      (case dict_get table_config ''description'' (JStr []) of Inl e \<Rightarrow> Inl e | Inr descr \<Rightarrow>
       (case subscript table_config ''columns'' of Inl e \<Rightarrow> Inl e | Inr columns_config \<Rightarrow>
        (case parse_column_definitions columns_config of Inl e \<Rightarrow> Inl e | Inr cols \<Rightarrow>
         (case subscript table_config ''location'' of Inl e \<Rightarrow> Inl e | Inr loc \<Rightarrow>
            Inr \<lparr>TableName = name,
                 DatabaseName = DATABASE g,
                 Description = descr,
                 TableType = ''EXTERNAL_TABLE'',
                 StorageDescriptor =
                   \<lparr>Columns = cols,
                    Location = ''s3://'' @ DATA_BUCKET g @ ''/'' @ format_value (repr sv) loc\<rparr>\<rparr>)))))"

text \<open>
  The \<^verbatim>\<open>try\<close> block of \<^verbatim>\<open>create_table\<close>: build the definition, call Glue, log.
  It ends normally (\<open>Inr ()\<close>, the function then returns \<^verbatim>\<open>True\<close>) or with the
  exception raised.
\<close>

definition create_table_try ::
  "'w services \<Rightarrow> 'g globals_scheme \<Rightarrow> json \<Rightarrow> 'w io \<Rightarrow> (exn + unit) \<times> 'w io" where
  "create_table_try sv g table_config s =
     (case make_table_input sv g table_config of
        Inl e \<Rightarrow> (Inl e, s)
      | Inr ti \<Rightarrow>
          (case glue_create_table sv (world s) (DATABASE g) ti of
             (Some e, w) \<Rightarrow> (Inl e, emit (GlueCreateTable (DATABASE g) ti) (s\<lparr>world := w\<rparr>))
           | (None, w) \<Rightarrow>
               (let s1 = emit (GlueCreateTable (DATABASE g) ti) (s\<lparr>world := w\<rparr>) in
                case subscript table_config ''name'' of
                  Inl e \<Rightarrow> (Inl e, s1)
                | Inr n \<Rightarrow>
                    (Inr (),
                     log INFO (''Successfully created table: '' @ format_value (repr sv) n) s1))))"

text \<open>
  The two \<^verbatim>\<open>except\<close> clauses. Each formats \<^verbatim>\<open>table_config['name']\<close> into its log
  message; an exception raised there leaves \<^verbatim>\<open>create_table\<close>.
\<close>

definition create_table_except ::
  "'w services \<Rightarrow> json \<Rightarrow> exn \<Rightarrow> 'w io \<Rightarrow> (exn + bool) \<times> 'w io" where
  "create_table_except sv table_config e s =
     (case e of
        ClientError error_code msg \<Rightarrow>
          (if error_code = Some ''AlreadyExistsException'' then
             (case subscript table_config ''name'' of
                Inl e' \<Rightarrow> (Inl e', s)
              | Inr n \<Rightarrow>
                  (Inr True,
                   log WARNING (''Table '' @ format_value (repr sv) n @ '' already exists'') s))
           else
             (case subscript table_config ''name'' of
                Inl e' \<Rightarrow> (Inl e', s)
              | Inr n \<Rightarrow>
                  (Inr False,
                   log ERROR (''Error creating table '' @ format_value (repr sv) n @ '': ''
                              @ exn_str e) s)))
      | _ \<Rightarrow>
          (case subscript table_config ''name'' of
             Inl e' \<Rightarrow> (Inl e', s)
           | Inr n \<Rightarrow>
               (Inr False,
                log ERROR (''Unexpected error creating table '' @ format_value (repr sv) n
                           @ '': '' @ exn_str e) s)))"

definition create_table ::
  "'w services \<Rightarrow> 'g globals_scheme \<Rightarrow> json \<Rightarrow> 'w io \<Rightarrow> (exn + bool) \<times> 'w io" where
  "create_table sv g table_config s =
     (case create_table_try sv g table_config s of
        (Inr u, s1) \<Rightarrow> (Inr True, s1)
      | (Inl e, s1) \<Rightarrow> create_table_except sv table_config e s1)"

text \<open>
  One round of the \<^verbatim>\<open>for\<close> loop of \<^verbatim>\<open>create_tables\<close>, on the local variables
  \<open>(success_count, failed_tables)\<close>. The handler appends \<^verbatim>\<open>config['name']\<close> before
  it logs; an exception raised by that lookup leaves the loop and the function.
\<close>

definition create_tables_round ::
  "'w services \<Rightarrow> 'g globals_scheme \<Rightarrow> json \<Rightarrow> nat \<times> json list \<Rightarrow> 'w io \<Rightarrow>
     (exn + nat \<times> json list) \<times> 'w io" where
  "create_tables_round sv g config acc s =
     (let raised = (\<lambda>e s1.
            case subscript config ''name'' of
              Inl e' \<Rightarrow> (Inl e', s1)
            | Inr n \<Rightarrow>
                (Inr (fst acc, snd acc @ [n]),
                 log ERROR (''Error processing table '' @ format_value (repr sv) n @ '': ''
                            @ exn_str e) s1))
      in case create_table sv g config s of
           (Inl e, s1) \<Rightarrow> raised e s1
         | (Inr True, s1) \<Rightarrow> (Inr (fst acc + 1, snd acc), s1)
         | (Inr False, s1) \<Rightarrow>
             (case subscript config ''name'' of
                Inl e \<Rightarrow> raised e s1
              | Inr n \<Rightarrow> (Inr (fst acc, snd acc @ [n]), s1)))"

fun create_tables_loop ::
  "'w services \<Rightarrow> 'g globals_scheme \<Rightarrow> json list \<Rightarrow> nat \<times> json list \<Rightarrow> 'w io \<Rightarrow>
     (exn + nat \<times> json list) \<times> 'w io" where
  "create_tables_loop sv g [] acc s = (Inr acc, s)"
| "create_tables_loop sv g (config # configs) acc s =
     (case create_tables_round sv g config acc s of
        (Inl e, s1) \<Rightarrow> (Inl e, s1)
      | (Inr acc1, s1) \<Rightarrow> create_tables_loop sv g configs acc1 s1)"

definition create_tables ::
  "'w services \<Rightarrow> 'g globals_scheme \<Rightarrow> json \<Rightarrow> 'w io \<Rightarrow> (exn + report) \<times> 'w io" where
  "create_tables sv g table_configs s =
     (case py_iter table_configs of
        Inl e \<Rightarrow> (Inl e, s)
      | Inr configs \<Rightarrow>
          (case create_tables_loop sv g configs (0, []) s of
             (Inl e, s1) \<Rightarrow> (Inl e, s1)
           | (Inr acc, s1) \<Rightarrow>
               (Inr \<lparr>success_count = fst acc, failed_tables = snd acc,
                     total_tables = length configs\<rparr>, s1)))"

text \<open>
  \<^verbatim>\<open>read_table_configs\<close> (the same in both programs): open the file, decode it,
  take \<^verbatim>\<open>['tables']\<close>; an exception is logged and raised again.
\<close>

definition read_table_configs :: "'w services \<Rightarrow> 'w io \<Rightarrow> (exn + json) \<times> 'w io" where
  "read_table_configs sv s =
     (let s1 = emit OpenTableConfigs s in
      case (case table_configs_json sv of Inl e \<Rightarrow> Inl e | Inr doc \<Rightarrow> subscript doc ''tables'') of
        Inl e \<Rightarrow> (Inl e, log ERROR (''Error reading table configurations: '' @ exn_str e) s1)
      | Inr tables \<Rightarrow> (Inr tables, s1))"

text \<open>
  \<^verbatim>\<open>validate_env_vars\<close> reads the environment as it is when the handler runs:
  a variable is missing when \<^verbatim>\<open>os.environ.get(var)\<close> is \<^verbatim>\<open>None\<close> or empty.
\<close>

fun join :: "string \<Rightarrow> string list \<Rightarrow> string" where
  "join sep [] = []"
| "join sep [x] = x"
| "join sep (x # y # ys) = x @ sep @ join sep (y # ys)"

definition missing_vars :: "string list \<Rightarrow> (string \<rightharpoonup> string) \<Rightarrow> string list" where
  "missing_vars required_vars environ =
     filter (\<lambda>var. case environ var of None \<Rightarrow> True | Some v \<Rightarrow> v = []) required_vars"

definition raise_if_missing :: "string list \<Rightarrow> exn + unit" where
  "raise_if_missing missing =
     (if missing \<noteq> [] then
        Inl (ValueError (''Missing required environment variables: '' @ join '', '' missing))
      else Inr ())"

definition validate_env_vars :: "(string \<rightharpoonup> string) \<Rightarrow> exn + unit" where
  "validate_env_vars environ =
     raise_if_missing (missing_vars [''DATABASE_NAME'', ''DATA_BUCKET''] environ)"

text \<open>The decimal text of a count, as an f-string prints an int.\<close>

fun str_nat :: "nat \<Rightarrow> string" where
  "str_nat n =
     (if n < 10 then [''0123456789'' ! n]
      else str_nat (n div 10) @ [''0123456789'' ! (n mod 10)])"

declare str_nat.simps [simp del]

text \<open>What the handler returns: a status code and one of the two bodies.\<close>

datatype body =
    Details (message: string) (details: report)
  | Error (error: string)

record response =
  statusCode :: nat
  body :: body

definition summary :: "report \<Rightarrow> string" where
  "summary result =
     ''Processed '' @ str_nat (total_tables result) @ '' tables. ''
     @ str_nat (success_count result) @ '' succeeded, ''
     @ str_nat (length (failed_tables result)) @ '' failed''"

text \<open>The \<^verbatim>\<open>except\<close> clause of \<^verbatim>\<open>lambda_handler\<close> (the same in both programs).\<close>

definition lambda_handler_except :: "exn \<Rightarrow> 'w io \<Rightarrow> response \<times> 'w io" where
  "lambda_handler_except e s =
     (\<lparr>statusCode = 500, body = Error (exn_str e)\<rparr>,
      emit (LogTraceback e) (log ERROR (''Error: '' @ exn_str e) s))"

text \<open>
  \<^verbatim>\<open>lambda_handler\<close>; its arguments \<^verbatim>\<open>event\<close> and \<^verbatim>\<open>context\<close> are not used.
  \<open>environ\<close> is \<^verbatim>\<open>os.environ\<close> at the time of the call, \<open>g\<close> the module's variables.
\<close>

definition lambda_handler ::
  "'w services \<Rightarrow> 'g globals_scheme \<Rightarrow> (string \<rightharpoonup> string) \<Rightarrow> 'w io \<Rightarrow> response \<times> 'w io" where
  "lambda_handler sv g environ s =
     (case validate_env_vars environ of
        Inl e \<Rightarrow> lambda_handler_except e s
      | Inr u \<Rightarrow>
          (let s1 = log INFO (''Data Bucket: '' @ DATA_BUCKET g)
                      (log INFO (''Using Database: '' @ DATABASE g)
                         (log INFO ''Starting table creation process'' s)) in
           case read_table_configs sv s1 of
             (Inl e, s2) \<Rightarrow> lambda_handler_except e s2
           | (Inr table_configs, s2) \<Rightarrow>
               (case create_tables sv g table_configs s2 of
                  (Inl e, s3) \<Rightarrow> lambda_handler_except e s3
                | (Inr result, s3) \<Rightarrow>
                    (\<lparr>statusCode = 200, body = Details (summary result) result\<rparr>, s3))))"

text \<open>
  The assignments at the top of the module, run once when the module is imported:
  \<^verbatim>\<open>os.environ['DATABASE_NAME']\<close> raises \<^verbatim>\<open>KeyError\<close> when the variable is not
  set. (The creation of the boto3 client is not modelled.)
\<close>

definition module_globals :: "(string \<rightharpoonup> string) \<Rightarrow> exn + globals" where
  "module_globals environ =
     (case environ ''DATABASE_NAME'' of
        None \<Rightarrow> Inl (KeyError ''DATABASE_NAME'')
      | Some d \<Rightarrow>
          (case environ ''DATA_BUCKET'' of
             None \<Rightarrow> Inl (KeyError ''DATA_BUCKET'')
           | Some b \<Rightarrow> Inr \<lparr>DATABASE = d, DATA_BUCKET = b\<rparr>))"

text \<open>
  An invocation in a fresh process: Python runs the module, then the handler is
  called, under the same environment. When the module raises there is no handler to
  call and nothing is returned by it.
\<close>

datatype invocation = ImportFailed exn | Returned response

definition import_and_invoke ::
  "'w services \<Rightarrow> (string \<rightharpoonup> string) \<Rightarrow> 'w io \<Rightarrow> invocation \<times> 'w io" where
  "import_and_invoke sv environ s =
     (case module_globals environ of
        Inl e \<Rightarrow> (ImportFailed e, s)
      | Inr g \<Rightarrow> (case lambda_handler sv g environ s of (r, s1) \<Rightarrow> (Returned r, s1)))"

section \<open>athena-table-creator-via-athena.py\<close>

subsection \<open>string.Template\<close>

text \<open>
  \<^verbatim>\<open>Template(t).safe_substitute(**mapping)\<close> of Python's standard library runs
  \<^verbatim>\<open>pattern.sub(convert, t)\<close>. The pattern matches, at a \<^verbatim>\<open>$\<close>, the first that fits of:
  a second \<^verbatim>\<open>$\<close> (escaped); an identifier \<^verbatim>\<open>[_a-zA-Z][_a-zA-Z0-9]*\<close>, as long as
  it goes (named); an identifier between braces (braced); nothing (invalid, the match
  is the \<^verbatim>\<open>$\<close> alone). The text between matches is copied.
\<close>

definition is_id_start :: "char \<Rightarrow> bool" where
  "is_id_start c = (c \<in> set ''_abcdefghijklmnopqrstuvwxyzABCDEFGHIJKLMNOPQRSTUVWXYZ'')"

definition is_id_char :: "char \<Rightarrow> bool" where
  "is_id_char c = (is_id_start c \<or> c \<in> set ''0123456789'')"

datatype match = Escaped | Named string | Braced string | Invalid

datatype piece = Text char | Match match

definition braced_ahead :: "string \<Rightarrow> bool" where
  "braced_ahead cs =
     (case cs of
        [] \<Rightarrow> False
      | b # ds \<Rightarrow>
          b = CHR ''{'' \<and> (case ds of [] \<Rightarrow> False | d # ds' \<Rightarrow> is_id_start d)
          \<and> (case dropWhile is_id_char ds of [] \<Rightarrow> False | x # xs \<Rightarrow> x = CHR ''}''))"

function scan :: "string \<Rightarrow> piece list" where
  "scan [] = []"
| "scan (c # cs) =
     (if c \<noteq> CHR ''$'' then Text c # scan cs
      else if cs \<noteq> [] \<and> hd cs = CHR ''$'' then Match Escaped # scan (tl cs)
      else if cs \<noteq> [] \<and> is_id_start (hd cs) then
        Match (Named (takeWhile is_id_char cs)) # scan (dropWhile is_id_char cs)
      else if braced_ahead cs then
        Match (Braced (takeWhile is_id_char (tl cs))) # scan (tl (dropWhile is_id_char (tl cs)))
      else Match Invalid # scan cs)"
  by pat_completeness auto
termination
proof (relation "measure length")
  fix c :: char and cs :: string
  have "length (dropWhile is_id_char cs) \<le> length cs"
    by (rule length_dropWhile_le)
  then show "(dropWhile is_id_char cs, c # cs) \<in> measure length"
    by simp
  have "length (tl (dropWhile is_id_char (tl cs))) \<le> length (dropWhile is_id_char (tl cs))"
    by simp
  also have "\<dots> \<le> length (tl cs)"
    by (rule length_dropWhile_le)
  also have "\<dots> \<le> length cs"
    by simp
  finally show "(tl (dropWhile is_id_char (tl cs)), c # cs) \<in> measure length"
    by simp
qed simp_all

declare scan.simps(2) [simp del]

text \<open>\<^verbatim>\<open>mo.group()\<close>: the text the match covers.\<close>

fun group :: "match \<Rightarrow> string" where
  "group Escaped = ''$$''"
| "group (Named n) = CHR ''$'' # n"
| "group (Braced n) = ''${'' @ n @ ''}''"
| "group Invalid = ''$''"

text \<open>
  \<^verbatim>\<open>convert\<close> of \<^verbatim>\<open>safe_substitute\<close>: a name of the mapping gives its value, any
  other name the matched text; an escape gives the delimiter.
\<close>

fun convert :: "(string \<rightharpoonup> string) \<Rightarrow> match \<Rightarrow> string" where
  "convert mapping (Named n) =
     (case mapping n of Some v \<Rightarrow> v | None \<Rightarrow> group (Named n))"
| "convert mapping (Braced n) =
     (case mapping n of Some v \<Rightarrow> v | None \<Rightarrow> group (Braced n))"
| "convert mapping Escaped = ''$''"
| "convert mapping Invalid = group Invalid"

fun replace :: "(string \<rightharpoonup> string) \<Rightarrow> piece \<Rightarrow> string" where
  "replace mapping (Text c) = [c]"
| "replace mapping (Match m) = convert mapping m"

fun source :: "piece \<Rightarrow> string" where
  "source (Text c) = [c]"
| "source (Match m) = group m"

definition safe_substitute :: "(string \<rightharpoonup> string) \<Rightarrow> string \<Rightarrow> string" where
  "safe_substitute mapping template = concat (map (replace mapping) (scan template))"

text \<open>
  \<^verbatim>\<open>Template(v).safe_substitute(...)\<close> on a decoded value: the regular expression
  raises \<^verbatim>\<open>TypeError\<close> on anything but a str.
\<close>

definition Template_safe_substitute :: "json \<Rightarrow> (string \<rightharpoonup> string) \<Rightarrow> exn + string" where
  "Template_safe_substitute v mapping =
     (case v of
        JStr template \<Rightarrow> Inr (safe_substitute mapping template)
      | _ \<Rightarrow> Inl (TypeError (''expected string or bytes-like object, got ''
                            @ quoted (type_name v))))"

subsection \<open>The functions of the program\<close>

definition execute_query ::
  "'w services \<Rightarrow> 'g globals_via_athena_scheme \<Rightarrow> string \<Rightarrow> string \<Rightarrow> 'w io \<Rightarrow> bool \<times> 'w io" where
  "execute_query sv g query database s =
     (let output_location = ''s3://'' @ RESULTS_BUCKET g @ ''/athena-query-results/'' in
      case athena_start_query_execution sv (world s) query database output_location of
        (None, w) \<Rightarrow>
          (True,
           log INFO (''Successfully executed query: '' @ query)
             (emit (AthenaStartQueryExecution query database output_location) (s\<lparr>world := w\<rparr>)))
      | (Some e, w) \<Rightarrow>
          (False,
           log ERROR (''Error executing query: '' @ exn_str e)
             (emit (AthenaStartQueryExecution query database output_location) (s\<lparr>world := w\<rparr>))))"

text \<open>
  The \<^verbatim>\<open>try\<close> block of the loop of \<^verbatim>\<open>create_tables\<close>. It returns the local
  variables as they are when it ends, also when it ends with an exception
  (\<^verbatim>\<open>success_count\<close> is incremented before the log line that follows it).
\<close>

definition create_tables_via_athena_try ::
  "'w services \<Rightarrow> 'g globals_via_athena_scheme \<Rightarrow> json \<Rightarrow> nat \<times> json list \<Rightarrow> 'w io \<Rightarrow>
     (exn + unit) \<times> (nat \<times> json list) \<times> 'w io" where
  "create_tables_via_athena_try sv g config acc s =
     (case subscript config ''query'' of
        Inl e \<Rightarrow> (Inl e, acc, s)
      | Inr template \<Rightarrow>
          (case Template_safe_substitute template [''DATA_BUCKET'' \<mapsto> DATA_BUCKET g] of
             Inl e \<Rightarrow> (Inl e, acc, s)
           | Inr query \<Rightarrow>
               (case execute_query sv g query (DATABASE g) s of
                  (True, s1) \<Rightarrow>
                    (case subscript config ''name'' of
                       Inl e \<Rightarrow> (Inl e, (fst acc + 1, snd acc), s1)
                     | Inr n \<Rightarrow>
                         (Inr (), (fst acc + 1, snd acc),
                          log INFO (''Successfully created table: ''
                                    @ format_value (repr sv) n) s1))
                | (False, s1) \<Rightarrow>
                    (case subscript config ''name'' of
                       Inl e \<Rightarrow> (Inl e, acc, s1)
                     | Inr n \<Rightarrow>
                         (Inr (), (fst acc, snd acc @ [n]),
                          log ERROR (''Failed to create table: ''
                                     @ format_value (repr sv) n) s1)))))"

definition create_tables_via_athena_round ::
  "'w services \<Rightarrow> 'g globals_via_athena_scheme \<Rightarrow> json \<Rightarrow> nat \<times> json list \<Rightarrow> 'w io \<Rightarrow>
     (exn + nat \<times> json list) \<times> 'w io" where
  "create_tables_via_athena_round sv g config acc s =
     (case create_tables_via_athena_try sv g config acc s of
        (Inr u, acc1, s1) \<Rightarrow> (Inr acc1, s1)
      | (Inl e, acc1, s1) \<Rightarrow>
          (case subscript config ''name'' of
             Inl e' \<Rightarrow> (Inl e', s1)
           | Inr n \<Rightarrow>
               (Inr (fst acc1, snd acc1 @ [n]),
                log ERROR (''Error processing table '' @ format_value (repr sv) n @ '': ''
                           @ exn_str e) s1)))"

fun create_tables_via_athena_loop ::
  "'w services \<Rightarrow> 'g globals_via_athena_scheme \<Rightarrow> json list \<Rightarrow> nat \<times> json list \<Rightarrow> 'w io \<Rightarrow>
     (exn + nat \<times> json list) \<times> 'w io" where
  "create_tables_via_athena_loop sv g [] acc s = (Inr acc, s)"
| "create_tables_via_athena_loop sv g (config # configs) acc s =
     (case create_tables_via_athena_round sv g config acc s of
        (Inl e, s1) \<Rightarrow> (Inl e, s1)
      | (Inr acc1, s1) \<Rightarrow> create_tables_via_athena_loop sv g configs acc1 s1)"

definition create_tables_via_athena ::
  "'w services \<Rightarrow> 'g globals_via_athena_scheme \<Rightarrow> json \<Rightarrow> 'w io \<Rightarrow> (exn + report) \<times> 'w io" where
  "create_tables_via_athena sv g table_configs s =
     (case py_iter table_configs of
        Inl e \<Rightarrow> (Inl e, s)
      | Inr configs \<Rightarrow>
          (case create_tables_via_athena_loop sv g configs (0, []) s of
             (Inl e, s1) \<Rightarrow> (Inl e, s1)
           | (Inr acc, s1) \<Rightarrow>
               (Inr \<lparr>success_count = fst acc, failed_tables = snd acc,
                     total_tables = length configs\<rparr>, s1)))"

definition validate_env_vars_via_athena :: "(string \<rightharpoonup> string) \<Rightarrow> exn + unit" where
  "validate_env_vars_via_athena environ =
     raise_if_missing
       (missing_vars [''DATABASE_NAME'', ''DATA_BUCKET'', ''RESULTS_BUCKET''] environ)"

definition lambda_handler_via_athena ::
  "'w services \<Rightarrow> 'g globals_via_athena_scheme \<Rightarrow> (string \<rightharpoonup> string) \<Rightarrow> 'w io \<Rightarrow>
     response \<times> 'w io" where
  "lambda_handler_via_athena sv g environ s =
     (case validate_env_vars_via_athena environ of
        Inl e \<Rightarrow> lambda_handler_except e s
      | Inr u \<Rightarrow>
          (let s1 = log INFO (''Results Bucket: '' @ RESULTS_BUCKET g)
                      (log INFO (''Data Bucket: '' @ DATA_BUCKET g)
                         (log INFO (''Using Database: '' @ DATABASE g)
                            (log INFO ''Starting table creation process'' s))) in
           case read_table_configs sv s1 of
             (Inl e, s2) \<Rightarrow> lambda_handler_except e s2
           | (Inr table_configs, s2) \<Rightarrow>
               (case create_tables_via_athena sv g table_configs s2 of
                  (Inl e, s3) \<Rightarrow> lambda_handler_except e s3
                | (Inr result, s3) \<Rightarrow>
                    (\<lparr>statusCode = 200, body = Details (summary result) result\<rparr>, s3))))"

definition module_globals_via_athena :: "(string \<rightharpoonup> string) \<Rightarrow> exn + globals_via_athena" where
  "module_globals_via_athena environ =
     (case environ ''DATABASE_NAME'' of
        None \<Rightarrow> Inl (KeyError ''DATABASE_NAME'')
      | Some d \<Rightarrow>
          (case environ ''DATA_BUCKET'' of
             None \<Rightarrow> Inl (KeyError ''DATA_BUCKET'')
           | Some b \<Rightarrow>
               (case environ ''RESULTS_BUCKET'' of
                  None \<Rightarrow> Inl (KeyError ''RESULTS_BUCKET'')
                | Some r \<Rightarrow> Inr \<lparr>DATABASE = d, DATA_BUCKET = b, RESULTS_BUCKET = r\<rparr>)))"

definition import_and_invoke_via_athena ::
  "'w services \<Rightarrow> (string \<rightharpoonup> string) \<Rightarrow> 'w io \<Rightarrow> invocation \<times> 'w io" where
  "import_and_invoke_via_athena sv environ s =
     (case module_globals_via_athena environ of
        Inl e \<Rightarrow> (ImportFailed e, s)
      | Inr g \<Rightarrow>
          (case lambda_handler_via_athena sv g environ s of (r, s1) \<Rightarrow> (Returned r, s1)))"

section \<open>Notions the statements use\<close>

text \<open>
  The configurations of a list whose turn in the loop of \<^verbatim>\<open>create_tables\<close> does not
  end in a success, each judged in the state the loop has reached when its turn comes:
  in the Glue program, those for which \<^verbatim>\<open>create_table\<close> does not return
  \<^verbatim>\<open>True\<close>.
\<close>

fun failing_configs ::
  "'w services \<Rightarrow> 'g globals_scheme \<Rightarrow> json list \<Rightarrow> 'w io \<Rightarrow> json list" where
  "failing_configs sv g [] s = []"
| "failing_configs sv g (config # configs) s =
     (if fst (create_table sv g config s) = Inr True then [] else [config])
     @ failing_configs sv g configs (snd (create_tables_round sv g config (0, []) s))"

text \<open>
  In the Athena program a configuration succeeds when its query is there, is a str and
  \<^verbatim>\<open>execute_query\<close> returns \<^verbatim>\<open>True\<close> on the resolved text.
\<close>

definition query_accepted ::
  "'w services \<Rightarrow> 'g globals_via_athena_scheme \<Rightarrow> json \<Rightarrow> 'w io \<Rightarrow> bool" where
  "query_accepted sv g config s =
     (case subscript config ''query'' of
        Inl e \<Rightarrow> False
      | Inr template \<Rightarrow>
          (case Template_safe_substitute template [''DATA_BUCKET'' \<mapsto> DATA_BUCKET g] of
             Inl e \<Rightarrow> False
           | Inr query \<Rightarrow> fst (execute_query sv g query (DATABASE g) s)))"

fun failing_configs_via_athena ::
  "'w services \<Rightarrow> 'g globals_via_athena_scheme \<Rightarrow> json list \<Rightarrow> 'w io \<Rightarrow> json list" where
  "failing_configs_via_athena sv g [] s = []"
| "failing_configs_via_athena sv g (config # configs) s =
     (if query_accepted sv g config s then [] else [config])
     @ failing_configs_via_athena sv g configs
         (snd (create_tables_via_athena_round sv g config (0, []) s))"

section \<open>The resolver as the specification words it\<close>

text \<open>
  The specification speaks of placeholder tokens in a template, replaced when the
  mapping has their name and left as written when it has not. Here a template is read
  as a sequence of parts: literal text without \<^verbatim>\<open>$\<close>, a placeholder
  \<^verbatim>\<open>${name}\<close>, a bare placeholder \<^verbatim>\<open>$name\<close>, the escape \<^verbatim>\<open>$$\<close>, and a
  \<^verbatim>\<open>$\<close> that begins none of these. \<open>written\<close> is the text of a part and
  \<open>resolved\<close> what the specification says becomes of it.
\<close>

datatype part = Literal string | Placeholder string | Bare string | Escape | Dollar

fun written :: "part \<Rightarrow> string" where
  "written (Literal t) = t"
| "written (Placeholder n) = ''${'' @ n @ ''}''"
| "written (Bare n) = CHR ''$'' # n"
| "written Escape = ''$$''"
| "written Dollar = ''$''"

fun resolved :: "(string \<rightharpoonup> string) \<Rightarrow> part \<Rightarrow> string" where
  "resolved mapping (Literal t) = t"
| "resolved mapping (Placeholder n) =
     (case mapping n of Some v \<Rightarrow> v | None \<Rightarrow> ''${'' @ n @ ''}'')"
| "resolved mapping (Bare n) = (case mapping n of Some v \<Rightarrow> v | None \<Rightarrow> CHR ''$'' # n)"
| "resolved mapping Escape = ''$''"
| "resolved mapping Dollar = ''$''"

text \<open>
  A name is a letter or underscore followed by letters, digits and underscores. A
  reading is well formed when its names are names, its literal text has no
  \<^verbatim>\<open>$\<close>, a bare placeholder is not followed by a character that would lengthen its
  name, and a lone \<^verbatim>\<open>$\<close> is not followed by what would make it an escape or a
  placeholder.
\<close>

definition is_identifier :: "string \<Rightarrow> bool" where
  "is_identifier n = (case n of [] \<Rightarrow> False | c # cs \<Rightarrow> is_id_start c \<and> list_all is_id_char cs)"

fun well_formed :: "part list \<Rightarrow> bool" where
  "well_formed [] = True"
| "well_formed (Literal t # ps) = (CHR ''$'' \<notin> set t \<and> well_formed ps)"
| "well_formed (Placeholder n # ps) = (is_identifier n \<and> well_formed ps)"
| "well_formed (Bare n # ps) =
     (is_identifier n
      \<and> (case concat (map written ps) of [] \<Rightarrow> True | c # cs \<Rightarrow> \<not> is_id_char c)
      \<and> well_formed ps)"
| "well_formed (Escape # ps) = well_formed ps"
| "well_formed (Dollar # ps) =
     ((case concat (map written ps) of
         [] \<Rightarrow> True
       | c # cs \<Rightarrow> c \<noteq> CHR ''$'' \<and> \<not> is_id_start c \<and> \<not> braced_ahead (c # cs))
      \<and> well_formed ps)"

text \<open>The matches a part stands for, and the part a piece of the scan stands for.\<close>

fun pieces :: "part \<Rightarrow> piece list" where
  "pieces (Literal t) = map Text t"
| "pieces (Placeholder n) = [Match (Braced n)]"
| "pieces (Bare n) = [Match (Named n)]"
| "pieces Escape = [Match Escaped]"
| "pieces Dollar = [Match Invalid]"

fun part_of :: "piece \<Rightarrow> part" where
  "part_of (Text c) = Literal [c]"
| "part_of (Match (Braced n)) = Placeholder n"
| "part_of (Match (Named n)) = Bare n"
| "part_of (Match Escaped) = Escape"
| "part_of (Match Invalid) = Dollar"

section \<open>Surroundings and inputs of the examples\<close>

text \<open>
  A catalog that keeps the names of its tables and rejects a second creation with
  \<^verbatim>\<open>AlreadyExistsException\<close>, and a query engine that accepts every query but the
  empty one. The state of the services is the list of the tables' names.
\<close>

definition catalog_create_table :: "json list \<Rightarrow> string \<Rightarrow> table_input \<Rightarrow> exn option \<times> json list" where
  "catalog_create_table w db ti =
     (if TableName ti \<in> set w then
        (Some (ClientError (Some ''AlreadyExistsException'') ''Table already exists.''), w)
      else (None, w @ [TableName ti]))"

definition query_engine :: "json list \<Rightarrow> string \<Rightarrow> string \<Rightarrow> string \<Rightarrow> exn option \<times> json list" where
  "query_engine w query db out =
     (if query = [] then
        (Some (ClientError (Some ''InvalidRequestException'') ''Query is empty.''), w)
      else (None, w))"

definition example_services :: "json list services" where
  "example_services =
     \<lparr>repr = type_name,
      glue_create_table = catalog_create_table,
      athena_start_query_execution = query_engine,
      table_configs_json = Inr (JObj [])\<rparr>"

definition example_globals :: globals_via_athena where
  "example_globals = \<lparr>DATABASE = ''db'', DATA_BUCKET = ''b'', RESULTS_BUCKET = ''r''\<rparr>"

definition start :: "json list io" where
  "start = \<lparr>world = [], trace = []\<rparr>"

definition config_t1 :: json where
  "config_t1 =
     JObj [(''name'', JStr ''t1''),
           (''columns'', JArr [JObj [(''name'', JStr ''id''), (''type'', JStr ''int'')]]),
           (''location'', JStr ''t1/'')]"

definition config_no_columns :: json where
  "config_no_columns = JObj [(''name'', JStr ''t2''), (''location'', JStr ''t2/'')]"

definition config_no_name :: json where
  "config_no_name =
     JObj [(''columns'', JArr [JObj [(''name'', JStr ''id''), (''type'', JStr ''int'')]]),
           (''location'', JStr ''t0/'')]"

definition query_t1 :: json where
  "query_t1 = JObj [(''name'', JStr ''t1''), (''query'', JStr ''CREATE TABLE t1 AT ${DATA_BUCKET}/t1'')]"

definition query_empty :: json where
  "query_empty = JObj [(''name'', JStr ''t2''), (''query'', JStr [])]"

definition query_data_location :: json where
  "query_data_location =
     JObj [(''name'', JStr ''t1''), (''query'', JStr ''CREATE TABLE t1 AT ${DATA_LOCATION}/t1'')]"

definition table_input_t1 :: table_input where
  "table_input_t1 =
     \<lparr>TableName = JStr ''t1'', DatabaseName = ''db'', Description = JStr [],
      TableType = ''EXTERNAL_TABLE'',
      StorageDescriptor =
        \<lparr>Columns = [\<lparr>Name = JStr ''id'', Type = JStr ''int''\<rparr>], Location = ''s3://b/t1/''\<rparr>\<rparr>"

definition query_no_name :: json where
  "query_no_name = JObj [(''query'', JStr ''SELECT 1'')]"

definition environ_without_database :: "string \<rightharpoonup> string" where
  "environ_without_database = [''DATA_BUCKET'' \<mapsto> ''b'', ''RESULTS_BUCKET'' \<mapsto> ''r'']"

definition environ_complete :: "string \<rightharpoonup> string" where
  "environ_complete =
     [''DATABASE_NAME'' \<mapsto> ''db'', ''DATA_BUCKET'' \<mapsto> ''b'', ''RESULTS_BUCKET'' \<mapsto> ''r'']"

section \<open>Unfolding the model on concrete inputs\<close>

lemmas run_defs = create_tables_def create_tables_round_def create_table_def create_table_try_def
  create_table_except_def make_table_input_def parse_column_definitions_def format_value_def
  emit_def log_def Let_def example_services_def example_globals_def start_def
  catalog_create_table_def query_engine_def config_t1_def config_no_columns_def config_no_name_def
  query_t1_def query_empty_def quoted_def

lemmas scan_defs = safe_substitute_def scan.simps(2) is_id_start_def is_id_char_def braced_ahead_def

lemmas athena_defs = create_tables_via_athena_def create_tables_via_athena_round_def
  create_tables_via_athena_try_def Template_safe_substitute_def execute_query_def scan_defs

lemmas handler_defs = lambda_handler_def lambda_handler_via_athena_def lambda_handler_except_def
  read_table_configs_def validate_env_vars_def validate_env_vars_via_athena_def
  raise_if_missing_def missing_vars_def module_globals_def module_globals_via_athena_def
  import_and_invoke_def import_and_invoke_via_athena_def environ_without_database_def
  environ_complete_def

section \<open>One round of the loop\<close>

text \<open>
  A round that ends normally has either counted a success or appended the name of its
  configuration, never both and never neither.
\<close>

lemma create_tables_round_cases:
  assumes "create_tables_round sv g c acc s = (Inr acc1, s1)"
  shows "(fst (create_table sv g c s) = Inr True \<and> acc1 = (fst acc + 1, snd acc))
       \<or> (fst (create_table sv g c s) \<noteq> Inr True
          \<and> (\<exists>n. subscript c ''name'' = Inr n \<and> acc1 = (fst acc, snd acc @ [n])))"
  using assms
  by (auto simp: create_tables_round_def Let_def split: prod.splits sum.splits bool.splits)

lemma create_tables_round_io:
  "snd (create_tables_round sv g c acc s) = snd (create_tables_round sv g c acc' s)"
  by (auto simp: create_tables_round_def Let_def split: prod.splits sum.splits bool.splits)

lemma create_tables_via_athena_round_cases:
  assumes "create_tables_via_athena_round sv g c acc s = (Inr acc1, s1)"
  shows "(query_accepted sv g c s \<and> acc1 = (fst acc + 1, snd acc))
       \<or> (\<not> query_accepted sv g c s
          \<and> (\<exists>n. subscript c ''name'' = Inr n \<and> acc1 = (fst acc, snd acc @ [n])))"
  using assms
  by (auto simp: create_tables_via_athena_round_def create_tables_via_athena_try_def
        query_accepted_def Let_def split: prod.splits sum.splits bool.splits)

lemma create_tables_via_athena_round_io:
  "snd (create_tables_via_athena_round sv g c acc s) = snd (create_tables_via_athena_round sv g c acc' s)"
  by (auto simp: create_tables_via_athena_round_def create_tables_via_athena_try_def Let_def split: prod.splits sum.splits bool.splits)

section \<open>The report\<close>

text \<open>
  What the loop has done when it ends normally, from any starting values of its two
  variables: every round added one to exactly one of the two, and the names appended are
  those of the failing configurations, in their order.
\<close>

lemma create_tables_loop_result:
  "create_tables_loop sv g cs acc s = (Inr acc1, s1) \<Longrightarrow>
     fst acc1 + length (snd acc1) = fst acc + length (snd acc) + length cs
     \<and> map Inr (snd acc1) =
         map Inr (snd acc) @ map (\<lambda>c. subscript c ''name'') (failing_configs sv g cs s)"
proof (induction cs arbitrary: acc s)
  case Nil
  then show ?case by simp
next
  case (Cons c cs)
  from Cons.prems obtain acc2 s2 where
    round: "create_tables_round sv g c acc s = (Inr acc2, s2)" and
    rest: "create_tables_loop sv g cs acc2 s2 = (Inr acc1, s1)"
    by (auto split: prod.splits sum.splits)
  have s2: "snd (create_tables_round sv g c (0, []) s) = s2"
    using create_tables_round_io [of sv g c "(0, [])" s acc] round by simp
  note ih = Cons.IH [OF rest]
  from create_tables_round_cases [OF round] show ?case
    using ih s2 by auto
qed

lemma create_tables_via_athena_loop_result:
  "create_tables_via_athena_loop sv g cs acc s = (Inr acc1, s1) \<Longrightarrow>
     fst acc1 + length (snd acc1) = fst acc + length (snd acc) + length cs
     \<and> map Inr (snd acc1) =
         map Inr (snd acc)
         @ map (\<lambda>c. subscript c ''name'') (failing_configs_via_athena sv g cs s)"
proof (induction cs arbitrary: acc s)
  case Nil
  then show ?case by simp
next
  case (Cons c cs)
  from Cons.prems obtain acc2 s2 where
    round: "create_tables_via_athena_round sv g c acc s = (Inr acc2, s2)" and
    rest: "create_tables_via_athena_loop sv g cs acc2 s2 = (Inr acc1, s1)"
    by (auto split: prod.splits sum.splits)
  have s2: "snd (create_tables_via_athena_round sv g c (0, []) s) = s2"
    using create_tables_via_athena_round_io [of sv g c "(0, [])" s acc] round by simp
  note ih = Cons.IH [OF rest]
  from create_tables_via_athena_round_cases [OF round] show ?case
    using ih s2 by auto
qed

lemma subseq_failing_configs: "subseq (failing_configs sv g cs s) cs"
  by (induction cs arbitrary: s) auto

lemma subseq_failing_configs_via_athena: "subseq (failing_configs_via_athena sv g cs s) cs"
  by (induction cs arbitrary: s) auto

text \<open>
  C1. Whenever \<^verbatim>\<open>create_tables\<close> returns a report, in either program and for any
  value it is given (a non-empty list of table configurations among them),
  \<^verbatim>\<open>success_count\<close> plus the length of \<^verbatim>\<open>failed_tables\<close> equals
  \<^verbatim>\<open>total_tables\<close>.
\<close>

theorem report_counts_add_up:
  "(create_tables sv g table_configs s = (Inr r, s1) \<longrightarrow>
      success_count r + length (failed_tables r) = total_tables r)
   \<and> (create_tables_via_athena sv' g' table_configs s = (Inr r', s1') \<longrightarrow>
      success_count r' + length (failed_tables r') = total_tables r')"
proof (intro conjI impI)
  assume "create_tables sv g table_configs s = (Inr r, s1)"
  then obtain cs acc where "create_tables_loop sv g cs (0, []) s = (Inr acc, s1)"
    and "r = \<lparr>success_count = fst acc, failed_tables = snd acc, total_tables = length cs\<rparr>"
    by (auto simp: create_tables_def split: sum.splits prod.splits)
  then show "success_count r + length (failed_tables r) = total_tables r"
    using create_tables_loop_result [of sv g cs "(0, [])" s acc s1] by simp
next
  assume "create_tables_via_athena sv' g' table_configs s = (Inr r', s1')"
  then obtain cs acc where "create_tables_via_athena_loop sv' g' cs (0, []) s = (Inr acc, s1')"
    and "r' = \<lparr>success_count = fst acc, failed_tables = snd acc, total_tables = length cs\<rparr>"
    by (auto simp: create_tables_via_athena_def split: sum.splits prod.splits)
  then show "success_count r' + length (failed_tables r') = total_tables r'"
    using create_tables_via_athena_loop_result [of sv' g' cs "(0, [])" s acc s1'] by simp
qed

text \<open>
  An instance in each program: three configurations of which the second has no columns,
  and two queries of which the second is rejected.
\<close>

theorem report_counts_add_up_witness:
  "fst (create_tables example_services example_globals
          (JArr [config_t1, config_no_columns, config_t1]) start)
     = Inr \<lparr>success_count = 2, failed_tables = [JStr ''t2''], total_tables = 3\<rparr>
   \<and> success_count \<lparr>success_count = 2, failed_tables = [JStr ''t2''], total_tables = 3\<rparr>
       + length (failed_tables \<lparr>success_count = 2, failed_tables = [JStr ''t2''], total_tables = 3\<rparr>)
     = total_tables \<lparr>success_count = 2, failed_tables = [JStr ''t2''], total_tables = 3\<rparr>
   \<and> fst (create_tables_via_athena example_services example_globals
          (JArr [query_t1, query_empty]) start)
     = Inr \<lparr>success_count = 1, failed_tables = [JStr ''t2''], total_tables = 2\<rparr>
   \<and> success_count \<lparr>success_count = 1, failed_tables = [JStr ''t2''], total_tables = 2\<rparr>
       + length (failed_tables \<lparr>success_count = 1, failed_tables = [JStr ''t2''], total_tables = 2\<rparr>)
     = total_tables \<lparr>success_count = 1, failed_tables = [JStr ''t2''], total_tables = 2\<rparr>"
proof -
  let ?r = "\<lparr>success_count = 2, failed_tables = [JStr ''t2''], total_tables = 3\<rparr>"
  let ?q = "\<lparr>success_count = 1, failed_tables = [JStr ''t2''], total_tables = 2\<rparr>"
  let ?run = "create_tables example_services example_globals
                (JArr [config_t1, config_no_columns, config_t1]) start"
  let ?run' = "create_tables_via_athena example_services example_globals
                (JArr [query_t1, query_empty]) start"
  have f: "fst ?run = Inr ?r"
    by (simp add: run_defs)
  have f': "fst ?run' = Inr ?q"
    by (simp add: run_defs athena_defs)
  have "?run = (Inr ?r, snd ?run)"
    using f by (simp add: prod_eq_iff)
  then have a: "success_count ?r + length (failed_tables ?r) = total_tables ?r"
    using report_counts_add_up [THEN conjunct1] by blast
  have "?run' = (Inr ?q, snd ?run')"
    using f' by (simp add: prod_eq_iff)
  then have b: "success_count ?q + length (failed_tables ?q) = total_tables ?q"
    using report_counts_add_up [THEN conjunct2] by blast
  from f a f' b show ?thesis by blast
qed

text \<open>
  C9. In the report \<^verbatim>\<open>create_tables\<close> returns for a list of configurations, in
  either program, \<^verbatim>\<open>failed_tables\<close> holds the names of the failing configurations,
  one for one and in the order of the input: the failing configurations are a
  subsequence of the list, and the names are read off it from left to right.
\<close>

theorem failed_tables_in_input_order:
  "(create_tables sv g (JArr configs) s = (Inr r, s1) \<longrightarrow>
      map Inr (failed_tables r) = map (\<lambda>c. subscript c ''name'') (failing_configs sv g configs s)
      \<and> subseq (failing_configs sv g configs s) configs)
   \<and> (create_tables_via_athena sv' g' (JArr configs) s = (Inr r', s1') \<longrightarrow>
      map Inr (failed_tables r') =
        map (\<lambda>c. subscript c ''name'') (failing_configs_via_athena sv' g' configs s)
      \<and> subseq (failing_configs_via_athena sv' g' configs s) configs)"
proof (intro conjI impI)
  assume run: "create_tables sv g (JArr configs) s = (Inr r, s1)"
  then obtain acc where "create_tables_loop sv g configs (0, []) s = (Inr acc, s1)"
    and "r = \<lparr>success_count = fst acc, failed_tables = snd acc, total_tables = length configs\<rparr>"
    by (auto simp: create_tables_def split: sum.splits prod.splits)
  then show "map Inr (failed_tables r) = map (\<lambda>c. subscript c ''name'') (failing_configs sv g configs s)"
    using create_tables_loop_result [of sv g configs "(0, [])" s acc s1] by simp
  show "subseq (failing_configs sv g configs s) configs"
    by (rule subseq_failing_configs)
next
  assume run: "create_tables_via_athena sv' g' (JArr configs) s = (Inr r', s1')"
  then obtain acc where "create_tables_via_athena_loop sv' g' configs (0, []) s = (Inr acc, s1')"
    and "r' = \<lparr>success_count = fst acc, failed_tables = snd acc, total_tables = length configs\<rparr>"
    by (auto simp: create_tables_via_athena_def split: sum.splits prod.splits)
  then show "map Inr (failed_tables r') =
        map (\<lambda>c. subscript c ''name'') (failing_configs_via_athena sv' g' configs s)"
    using create_tables_via_athena_loop_result [of sv' g' configs "(0, [])" s acc s1'] by simp
  show "subseq (failing_configs_via_athena sv' g' configs s) configs"
    by (rule subseq_failing_configs_via_athena)
qed

theorem failed_tables_in_input_order_witness:
  "fst (create_tables example_services example_globals
          (JArr [config_no_columns, config_t1, config_t1]) start)
     = Inr \<lparr>success_count = 2, failed_tables = [JStr ''t2''], total_tables = 3\<rparr>
   \<and> failing_configs example_services example_globals
        [config_no_columns, config_t1, config_t1] start = [config_no_columns]
   \<and> map Inr [JStr ''t2'']
     = map (\<lambda>c. subscript c ''name'')
         (failing_configs example_services example_globals
            [config_no_columns, config_t1, config_t1] start)
   \<and> fst (create_tables_via_athena example_services example_globals
          (JArr [query_empty, query_t1, config_t1]) start)
     = Inr \<lparr>success_count = 1, failed_tables = [JStr ''t2'', JStr ''t1''], total_tables = 3\<rparr>
   \<and> failing_configs_via_athena example_services example_globals
        [query_empty, query_t1, config_t1] start = [query_empty, config_t1]
   \<and> map Inr [JStr ''t2'', JStr ''t1'']
     = map (\<lambda>c. subscript c ''name'')
         (failing_configs_via_athena example_services example_globals
            [query_empty, query_t1, config_t1] start)"
proof -
  let ?r = "\<lparr>success_count = 2, failed_tables = [JStr ''t2''], total_tables = 3\<rparr>"
  let ?q = "\<lparr>success_count = 1, failed_tables = [JStr ''t2'', JStr ''t1''], total_tables = 3\<rparr>"
  let ?run = "create_tables example_services example_globals
                (JArr [config_no_columns, config_t1, config_t1]) start"
  let ?run' = "create_tables_via_athena example_services example_globals
                (JArr [query_empty, query_t1, config_t1]) start"
  have f: "fst ?run = Inr ?r"
    by (simp add: run_defs)
  have f': "fst ?run' = Inr ?q"
    by (simp add: run_defs athena_defs)
  have e: "failing_configs example_services example_globals
        [config_no_columns, config_t1, config_t1] start = [config_no_columns]"
    by (simp add: run_defs)
  have e': "failing_configs_via_athena example_services example_globals
        [query_empty, query_t1, config_t1] start = [query_empty, config_t1]"
    by (simp add: run_defs athena_defs query_accepted_def)
  have "?run = (Inr ?r, snd ?run)"
    using f by (simp add: prod_eq_iff)
  then have a: "map Inr (failed_tables ?r)
     = map (\<lambda>c. subscript c ''name'')
         (failing_configs example_services example_globals
            [config_no_columns, config_t1, config_t1] start)"
    using failed_tables_in_input_order [THEN conjunct1] by blast
  have "?run' = (Inr ?q, snd ?run')"
    using f' by (simp add: prod_eq_iff)
  then have b: "map Inr (failed_tables ?q)
     = map (\<lambda>c. subscript c ''name'')
         (failing_configs_via_athena example_services example_globals
            [query_empty, query_t1, config_t1] start)"
    using failed_tables_in_input_order [THEN conjunct2] by blast
  from f e a f' e' b show ?thesis by simp
qed

section \<open>Failures kept inside a round\<close>

text \<open>
  Every event of \<^verbatim>\<open>create_table\<close> is added after those already there, and the
  definition it has built, when it has built one, is among the Glue calls added.
\<close>

lemma create_table_trace:
  "\<exists>new. trace (snd (create_table sv g c s)) = trace s @ new
     \<and> (\<forall>ti. make_table_input sv g c = Inr ti \<longrightarrow> GlueCreateTable (DATABASE g) ti \<in> set new)"
  by (auto simp: create_table_def create_table_try_def create_table_except_def log_def emit_def
      Let_def split: prod.splits sum.splits option.splits exn.splits)

lemma create_tables_round_named:
  assumes "subscript c ''name'' = Inr n"
  shows "\<exists>acc1 s1 new. create_tables_round sv g c acc s = (Inr acc1, s1)
     \<and> trace s1 = trace s @ new
     \<and> (\<forall>ti. make_table_input sv g c = Inr ti \<longrightarrow> GlueCreateTable (DATABASE g) ti \<in> set new)"
proof -
  obtain new where new: "trace (snd (create_table sv g c s)) = trace s @ new"
    "\<forall>ti. make_table_input sv g c = Inr ti \<longrightarrow> GlueCreateTable (DATABASE g) ti \<in> set new"
    using create_table_trace [of sv g c s] by blast
  show ?thesis
  proof (cases "create_table sv g c s")
    case (Pair r s1)
    then show ?thesis using assms new
      by (cases r) (auto simp: create_tables_round_def Let_def log_def emit_def split: bool.splits)
  qed
qed

lemma create_tables_loop_named:
  assumes "\<forall>c \<in> set cs. \<exists>n. subscript c ''name'' = Inr n"
  shows "\<exists>acc1 s1 new. create_tables_loop sv g cs acc s = (Inr acc1, s1)
     \<and> trace s1 = trace s @ new
     \<and> (\<forall>c \<in> set cs. \<forall>ti. make_table_input sv g c = Inr ti \<longrightarrow>
           GlueCreateTable (DATABASE g) ti \<in> set new)"
  using assms
proof (induction cs arbitrary: acc s)
  case Nil
  then show ?case by simp
next
  case (Cons c cs)
  then obtain n where "subscript c ''name'' = Inr n" by auto
  from create_tables_round_named [OF this, of sv g acc s]
  obtain acc1 s1 new1 where r: "create_tables_round sv g c acc s = (Inr acc1, s1)"
    and t1: "trace s1 = trace s @ new1"
    and g1: "\<forall>ti. make_table_input sv g c = Inr ti \<longrightarrow> GlueCreateTable (DATABASE g) ti \<in> set new1"
    by blast
  from Cons.IH [of acc1 s1] Cons.prems
  obtain acc2 s2 new2 where l: "create_tables_loop sv g cs acc1 s1 = (Inr acc2, s2)"
    and t2: "trace s2 = trace s1 @ new2"
    and g2: "\<forall>c \<in> set cs. \<forall>ti. make_table_input sv g c = Inr ti \<longrightarrow>
           GlueCreateTable (DATABASE g) ti \<in> set new2"
    by auto
  have "create_tables_loop sv g (c # cs) acc s = (Inr acc2, s2)"
    using r l by simp
  moreover have "trace s2 = trace s @ (new1 @ new2)"
    using t1 t2 by simp
  moreover have "\<forall>c' \<in> set (c # cs). \<forall>ti. make_table_input sv g c' = Inr ti \<longrightarrow>
           GlueCreateTable (DATABASE g) ti \<in> set (new1 @ new2)"
    using g1 g2 by auto
  ultimately show ?case by blast
qed

lemma create_tables_isolates_named_configs:
  assumes "\<forall>c \<in> set configs. \<exists>n. subscript c ''name'' = Inr n"
  shows "\<exists>r s1 new. create_tables sv g (JArr configs) s = (Inr r, s1)
     \<and> trace s1 = trace s @ new
     \<and> (\<forall>c \<in> set configs. \<forall>ti. make_table_input sv g c = Inr ti \<longrightarrow>
           GlueCreateTable (DATABASE g) ti \<in> set new)"
  using create_tables_loop_named [OF assms, of sv g "(0, [])" s]
  by (auto simp: create_tables_def)

text \<open>
  C2. A batch with one malformed configuration should still see the others attempted.
  The lemma above shows it for configurations that have a \<^verbatim>\<open>name\<close>. A configuration
  without one is not survived: here the first of two configurations has no
  \<^verbatim>\<open>name\<close>; \<^verbatim>\<open>create_tables\<close> ends with \<^verbatim>\<open>KeyError('name')\<close>, the state is the
  one it started in, so that Glue was never called for the second, well-formed
  configuration, and the handler answers with status 500.
\<close>

theorem config_without_name_stops_the_batch:
  "create_tables example_services example_globals (JArr [config_no_name, config_t1]) start
     = (Inl (KeyError ''name''), start)
   \<and> fst (lambda_handler
           (example_services
              \<lparr>table_configs_json := Inr (JObj [(''tables'', JArr [config_no_name, config_t1])])\<rparr>)
           example_globals environ_complete start)
     = \<lparr>statusCode = 500, body = Error (quoted ''name'')\<rparr>"
  by (simp add: run_defs handler_defs)

section \<open>A table that already exists\<close>

lemma make_table_input_name:
  "make_table_input sv g c = Inr ti \<Longrightarrow> subscript c ''name'' = Inr (TableName ti)"
  by (auto simp: make_table_input_def split: sum.splits)

text \<open>
  C3. When the Glue call for a configuration raises a \<^verbatim>\<open>ClientError\<close> whose code is
  \<^verbatim>\<open>AlreadyExistsException\<close>, \<^verbatim>\<open>create_table\<close> logs the warning that the table
  already exists and returns \<^verbatim>\<open>True\<close>; the round counts a success and leaves
  \<^verbatim>\<open>failed_tables\<close> as it was. So when a first call creates the table and a second
  call finds it, the first run on the configuration ends as a creation (the info line,
  the catalog in its new state) and the second, started where the first ended, as an
  existing table (the warning), both returning \<^verbatim>\<open>True\<close>; a batch that holds the
  configuration twice makes exactly these two calls and reports two successes and no
  failure.
\<close>

theorem created_then_already_exists:
  assumes "make_table_input sv g c = Inr ti"
  shows "(glue_create_table sv (world s) (DATABASE g) ti
            = (Some (ClientError (Some ''AlreadyExistsException'') msg), w) \<longrightarrow>
          create_table sv g c s
            = (Inr True,
               log WARNING (''Table '' @ format_value (repr sv) (TableName ti) @ '' already exists'')
                 (emit (GlueCreateTable (DATABASE g) ti) (s\<lparr>world := w\<rparr>)))
          \<and> create_tables_round sv g c (k, failed) s
            = (Inr (k + 1, failed),
               log WARNING (''Table '' @ format_value (repr sv) (TableName ti) @ '' already exists'')
                 (emit (GlueCreateTable (DATABASE g) ti) (s\<lparr>world := w\<rparr>))))
       \<and> (glue_create_table sv (world s) (DATABASE g) ti = (None, wa)
          \<and> glue_create_table sv wa (DATABASE g) ti
            = (Some (ClientError (Some ''AlreadyExistsException'') msg), wb) \<longrightarrow>
          create_table sv g c s
            = (Inr True,
               log INFO (''Successfully created table: '' @ format_value (repr sv) (TableName ti))
                 (emit (GlueCreateTable (DATABASE g) ti) (s\<lparr>world := wa\<rparr>)))
          \<and> create_table sv g c
              (log INFO (''Successfully created table: '' @ format_value (repr sv) (TableName ti))
                 (emit (GlueCreateTable (DATABASE g) ti) (s\<lparr>world := wa\<rparr>)))
            = (Inr True,
               s\<lparr>world := wb,
                 trace := trace s @
                   [GlueCreateTable (DATABASE g) ti,
                    Log INFO (''Successfully created table: ''
                              @ format_value (repr sv) (TableName ti)),
                    GlueCreateTable (DATABASE g) ti,
                    Log WARNING (''Table '' @ format_value (repr sv) (TableName ti)
                                 @ '' already exists'')]\<rparr>)
          \<and> create_tables sv g (JArr [c, c]) s
            = (Inr \<lparr>success_count = 2, failed_tables = [], total_tables = 2\<rparr>,
               s\<lparr>world := wb,
                 trace := trace s @
                   [GlueCreateTable (DATABASE g) ti,
                    Log INFO (''Successfully created table: ''
                              @ format_value (repr sv) (TableName ti)),
                    GlueCreateTable (DATABASE g) ti,
                    Log WARNING (''Table '' @ format_value (repr sv) (TableName ti)
                                 @ '' already exists'')]\<rparr>))"
proof -
  note name = make_table_input_name [OF assms]
  let ?warn = "''Table '' @ format_value (repr sv) (TableName ti) @ '' already exists''"
  let ?info = "''Successfully created table: '' @ format_value (repr sv) (TableName ti)"
  have found: "create_table sv g c s'
            = (Inr True, log WARNING ?warn (emit (GlueCreateTable (DATABASE g) ti) (s'\<lparr>world := w'\<rparr>)))"
    if "glue_create_table sv (world s') (DATABASE g) ti
          = (Some (ClientError (Some ''AlreadyExistsException'') msg), w')" for s' w'
    using that assms name
    by (simp add: create_table_def create_table_try_def create_table_except_def)
  have created: "create_table sv g c s
            = (Inr True, log INFO ?info (emit (GlueCreateTable (DATABASE g) ti) (s\<lparr>world := wa\<rparr>)))"
    if "glue_create_table sv (world s) (DATABASE g) ti = (None, wa)"
    using that assms name
    by (simp add: create_table_def create_table_try_def Let_def)
  have round: "create_tables_round sv g c acc s' = (Inr (fst acc + 1, snd acc), s'')"
    if "create_table sv g c s' = (Inr True, s'')" for s' s'' acc
    using that by (simp add: create_tables_round_def Let_def)
  show ?thesis
  proof (intro conjI impI)
    assume a: "glue_create_table sv (world s) (DATABASE g) ti
            = (Some (ClientError (Some ''AlreadyExistsException'') msg), w)"
    show "create_table sv g c s
            = (Inr True, log WARNING ?warn (emit (GlueCreateTable (DATABASE g) ti) (s\<lparr>world := w\<rparr>)))"
      by (rule found [OF a])
    then show "create_tables_round sv g c (k, failed) s
            = (Inr (k + 1, failed),
               log WARNING ?warn (emit (GlueCreateTable (DATABASE g) ti) (s\<lparr>world := w\<rparr>)))"
      using round [of s _ "(k, failed)"] by simp
  next
    assume b: "glue_create_table sv (world s) (DATABASE g) ti = (None, wa)
          \<and> glue_create_table sv wa (DATABASE g) ti
            = (Some (ClientError (Some ''AlreadyExistsException'') msg), wb)"
    let ?s1 = "log INFO ?info (emit (GlueCreateTable (DATABASE g) ti) (s\<lparr>world := wa\<rparr>))"
    let ?s2 = "s\<lparr>world := wb,
                 trace := trace s @
                   [GlueCreateTable (DATABASE g) ti, Log INFO ?info,
                    GlueCreateTable (DATABASE g) ti, Log WARNING ?warn]\<rparr>"
    have w: "world ?s1 = wa"
      by (simp add: log_def emit_def)
    show first: "create_table sv g c s = (Inr True, ?s1)"
      using created b by simp
    have "create_table sv g c ?s1
        = (Inr True, log WARNING ?warn (emit (GlueCreateTable (DATABASE g) ti) (?s1\<lparr>world := wb\<rparr>)))"
      using found [of ?s1 wb] b w by simp
    then show second: "create_table sv g c ?s1 = (Inr True, ?s2)"
      by (simp add: log_def emit_def)
    have r1: "create_tables_round sv g c (0, []) s = (Inr (1, []), ?s1)"
      using round [OF first, of "(0, [])"] by simp
    have r2: "create_tables_round sv g c (1, []) ?s1 = (Inr (2, []), ?s2)"
      using round [OF second, of "(1, [])"] by simp
    show "create_tables sv g (JArr [c, c]) s
            = (Inr \<lparr>success_count = 2, failed_tables = [], total_tables = 2\<rparr>, ?s2)"
      using r1 r2 by (simp add: create_tables_def)
  qed
qed

theorem created_then_already_exists_witness:
  "make_table_input example_services example_globals config_t1 = Inr table_input_t1
   \<and> glue_create_table example_services [JStr ''t1''] ''db'' table_input_t1
     = (Some (ClientError (Some ''AlreadyExistsException'') ''Table already exists.''), [JStr ''t1''])
   \<and> create_table example_services example_globals config_t1 \<lparr>world = [JStr ''t1''], trace = []\<rparr>
     = (Inr True,
        \<lparr>world = [JStr ''t1''],
         trace = [GlueCreateTable ''db'' table_input_t1, Log WARNING ''Table t1 already exists'']\<rparr>)
   \<and> fst (create_tables_round example_services example_globals config_t1 (0, [])
            \<lparr>world = [JStr ''t1''], trace = []\<rparr>) = Inr (1, [])
   \<and> glue_create_table example_services [] ''db'' table_input_t1 = (None, [JStr ''t1''])
   \<and> create_tables example_services example_globals (JArr [config_t1, config_t1]) start
     = (Inr \<lparr>success_count = 2, failed_tables = [], total_tables = 2\<rparr>,
        \<lparr>world = [JStr ''t1''],
         trace = [GlueCreateTable ''db'' table_input_t1,
                  Log INFO ''Successfully created table: t1'',
                  GlueCreateTable ''db'' table_input_t1,
                  Log WARNING ''Table t1 already exists'']\<rparr>)"
proof -
  have ti: "make_table_input example_services example_globals config_t1 = Inr table_input_t1"
    by (simp add: run_defs table_input_t1_def)
  have g1: "glue_create_table example_services [JStr ''t1''] ''db'' table_input_t1
     = (Some (ClientError (Some ''AlreadyExistsException'') ''Table already exists.''), [JStr ''t1''])"
    by (simp add: example_services_def catalog_create_table_def table_input_t1_def)
  have g0: "glue_create_table example_services [] ''db'' table_input_t1 = (None, [JStr ''t1''])"
    by (simp add: example_services_def catalog_create_table_def table_input_t1_def)
  have db: "DATABASE example_globals = ''db''"
    by (simp add: example_globals_def)
  note inst = created_then_already_exists [OF ti]
  have a: "create_table example_services example_globals config_t1 \<lparr>world = [JStr ''t1''], trace = []\<rparr>
     = (Inr True,
        \<lparr>world = [JStr ''t1''],
         trace = [GlueCreateTable ''db'' table_input_t1, Log WARNING ''Table t1 already exists'']\<rparr>)
   \<and> fst (create_tables_round example_services example_globals config_t1 (0, [])
            \<lparr>world = [JStr ''t1''], trace = []\<rparr>) = Inr (1, [])"
    using inst [where s = "\<lparr>world = [JStr ''t1''], trace = []\<rparr>" and w = "[JStr ''t1'']"
        and msg = "''Table already exists.''" and k = 0 and failed = "[]", THEN conjunct1] g1 db
    by (simp add: log_def emit_def format_value_def table_input_t1_def example_services_def)
  have b: "create_tables example_services example_globals (JArr [config_t1, config_t1]) start
     = (Inr \<lparr>success_count = 2, failed_tables = [], total_tables = 2\<rparr>,
        \<lparr>world = [JStr ''t1''],
         trace = [GlueCreateTable ''db'' table_input_t1,
                  Log INFO ''Successfully created table: t1'',
                  GlueCreateTable ''db'' table_input_t1,
                  Log WARNING ''Table t1 already exists'']\<rparr>)"
    using inst [where s = start and wa = "[JStr ''t1'']" and wb = "[JStr ''t1'']"
        and msg = "''Table already exists.''", THEN conjunct2] g0 g1 db
    by (simp add: start_def format_value_def table_input_t1_def example_services_def)
  from ti g1 a g0 b show ?thesis by blast
qed

section \<open>Queries sent to Athena\<close>

text \<open>
  What a round does for a configuration that has a \<^verbatim>\<open>name\<close> and a str
  \<^verbatim>\<open>query\<close>: when \<^verbatim>\<open>start_query_execution\<close> returns, the round counts a success,
  and the call is the only one made to the service (nothing asks for the state of the
  query afterwards); when it raises, the round appends the name to
  \<^verbatim>\<open>failed_tables\<close> and the message of the exception is logged as the error.
\<close>

theorem dispatch_outcome_decides:
  assumes "subscript c ''name'' = Inr n"
    and "subscript c ''query'' = Inr (JStr template)"
    and "query = safe_substitute [''DATA_BUCKET'' \<mapsto> DATA_BUCKET g] template"
    and "out = ''s3://'' @ RESULTS_BUCKET g @ ''/athena-query-results/''"
  shows "(athena_start_query_execution sv (world s) query (DATABASE g) out = (None, w) \<longrightarrow>
          create_tables_via_athena_round sv g c (k, failed) s
            = (Inr (k + 1, failed),
               s\<lparr>world := w,
                 trace := trace s @
                   [AthenaStartQueryExecution query (DATABASE g) out,
                    Log INFO (''Successfully executed query: '' @ query),
                    Log INFO (''Successfully created table: '' @ format_value (repr sv) n)]\<rparr>))
       \<and> (athena_start_query_execution sv (world s) query (DATABASE g) out = (Some e, w) \<longrightarrow>
          create_tables_via_athena_round sv g c (k, failed) s
            = (Inr (k, failed @ [n]),
               s\<lparr>world := w,
                 trace := trace s @
                   [AthenaStartQueryExecution query (DATABASE g) out,
                    Log ERROR (''Error executing query: '' @ exn_str e),
                    Log ERROR (''Failed to create table: '' @ format_value (repr sv) n)]\<rparr>))"
  using assms
  by (simp add: create_tables_via_athena_round_def create_tables_via_athena_try_def
      Template_safe_substitute_def execute_query_def log_def emit_def Let_def)

theorem dispatch_outcome_decides_witness:
  "subscript query_t1 ''name'' = Inr (JStr ''t1'')
   \<and> subscript query_t1 ''query'' = Inr (JStr ''CREATE TABLE t1 AT ${DATA_BUCKET}/t1'')
   \<and> athena_start_query_execution example_services [] ''CREATE TABLE t1 AT b/t1'' ''db''
        ''s3://r/athena-query-results/'' = (None, [])
   \<and> create_tables_via_athena_round example_services example_globals query_t1 (0, []) start
     = (Inr (1, []),
        \<lparr>world = [],
         trace = [AthenaStartQueryExecution ''CREATE TABLE t1 AT b/t1'' ''db''
                    ''s3://r/athena-query-results/'',
                  Log INFO ''Successfully executed query: CREATE TABLE t1 AT b/t1'',
                  Log INFO ''Successfully created table: t1'']\<rparr>)
   \<and> subscript query_empty ''name'' = Inr (JStr ''t2'')
   \<and> subscript query_empty ''query'' = Inr (JStr [])
   \<and> athena_start_query_execution example_services [] [] ''db'' ''s3://r/athena-query-results/''
     = (Some (ClientError (Some ''InvalidRequestException'') ''Query is empty.''), [])
   \<and> create_tables_via_athena_round example_services example_globals query_empty (0, []) start
     = (Inr (0, [JStr ''t2'']),
        \<lparr>world = [],
         trace = [AthenaStartQueryExecution [] ''db'' ''s3://r/athena-query-results/'',
                  Log ERROR ''Error executing query: Query is empty.'',
                  Log ERROR ''Failed to create table: t2'']\<rparr>)"
proof -
  have n1: "subscript query_t1 ''name'' = Inr (JStr ''t1'')"
    and q1: "subscript query_t1 ''query'' = Inr (JStr ''CREATE TABLE t1 AT ${DATA_BUCKET}/t1'')"
    by (simp_all add: query_t1_def)
  have n2: "subscript query_empty ''name'' = Inr (JStr ''t2'')"
    and q2: "subscript query_empty ''query'' = Inr (JStr [])"
    by (simp_all add: query_empty_def)
  have r1: "''CREATE TABLE t1 AT b/t1''
      = safe_substitute [''DATA_BUCKET'' \<mapsto> DATA_BUCKET example_globals]
          ''CREATE TABLE t1 AT ${DATA_BUCKET}/t1''"
    by (simp add: athena_defs example_globals_def)
  have r2: "[] = safe_substitute [''DATA_BUCKET'' \<mapsto> DATA_BUCKET example_globals] []"
    by (simp add: athena_defs)
  have out: "''s3://r/athena-query-results/''
      = ''s3://'' @ RESULTS_BUCKET example_globals @ ''/athena-query-results/''"
    by (simp add: example_globals_def)
  have a1: "athena_start_query_execution example_services [] ''CREATE TABLE t1 AT b/t1'' ''db''
        ''s3://r/athena-query-results/'' = (None, [])"
    by (simp add: example_services_def query_engine_def)
  have a2: "athena_start_query_execution example_services [] [] ''db'' ''s3://r/athena-query-results/''
     = (Some (ClientError (Some ''InvalidRequestException'') ''Query is empty.''), [])"
    by (simp add: example_services_def query_engine_def)
  have c1: "create_tables_via_athena_round example_services example_globals query_t1 (0, []) start
     = (Inr (1, []),
        \<lparr>world = [],
         trace = [AthenaStartQueryExecution ''CREATE TABLE t1 AT b/t1'' ''db''
                    ''s3://r/athena-query-results/'',
                  Log INFO ''Successfully executed query: CREATE TABLE t1 AT b/t1'',
                  Log INFO ''Successfully created table: t1'']\<rparr>)"
    using dispatch_outcome_decides [OF n1 q1 r1 out, where sv = example_services and s = start
        and w = "[]" and k = 0 and failed = "[]", THEN conjunct1] a1
    by (simp add: start_def example_globals_def format_value_def)
  have c2: "create_tables_via_athena_round example_services example_globals query_empty (0, []) start
     = (Inr (0, [JStr ''t2'']),
        \<lparr>world = [],
         trace = [AthenaStartQueryExecution [] ''db'' ''s3://r/athena-query-results/'',
                  Log ERROR ''Error executing query: Query is empty.'',
                  Log ERROR ''Failed to create table: t2'']\<rparr>)"
    using dispatch_outcome_decides [OF n2 q2 r2 out, where sv = example_services and s = start
        and w = "[]" and k = 0 and failed = "[]"
        and e = "ClientError (Some ''InvalidRequestException'') ''Query is empty.''",
        THEN conjunct2] a2
    by (simp add: start_def example_globals_def format_value_def)
  from n1 q1 a1 c1 n2 q2 a2 c2 show ?thesis by blast
qed

text \<open>
  C4. A query the service accepts should be counted as a success whatever the
  configuration. Here the first of two configurations has a query and no
  \<^verbatim>\<open>name\<close>: the query is sent and accepted, then the info line that formats
  \<^verbatim>\<open>config['name']\<close> raises \<^verbatim>\<open>KeyError\<close>, the handler raises it again, and
  \<^verbatim>\<open>create_tables\<close> ends without a report; the second query is never sent and the
  handler answers with status 500.
\<close>

theorem accepted_query_without_name_not_counted:
  "create_tables_via_athena example_services example_globals (JArr [query_no_name, query_t1]) start
     = (Inl (KeyError ''name''),
        \<lparr>world = [],
         trace = [AthenaStartQueryExecution ''SELECT 1'' ''db'' ''s3://r/athena-query-results/'',
                  Log INFO ''Successfully executed query: SELECT 1'']\<rparr>)
   \<and> fst (lambda_handler_via_athena
           (example_services
              \<lparr>table_configs_json := Inr (JObj [(''tables'', JArr [query_no_name, query_t1])])\<rparr>)
           example_globals environ_complete start)
     = \<lparr>statusCode = 500, body = Error (quoted ''name'')\<rparr>"
  by (simp add: run_defs athena_defs handler_defs query_no_name_def)

text \<open>
  C7, as the program has it. For a configuration whose \<^verbatim>\<open>query\<close> is a str, the
  first thing a round adds to the trace is the call \<^verbatim>\<open>start_query_execution\<close> with
  the query resolved under the single substitution of \<^verbatim>\<open>DATA_BUCKET\<close> by the
  module's \<^verbatim>\<open>DATA_BUCKET\<close>, with the database \<^verbatim>\<open>DATABASE\<close> and with the output
  location \<^verbatim>\<open>s3://RESULTS_BUCKET/athena-query-results/\<close>.
\<close>

theorem query_resolved_with_DATA_BUCKET:
  assumes "subscript c ''query'' = Inr (JStr template)"
  shows "\<exists>rest. trace (snd (create_tables_via_athena_round sv g c acc s))
           = trace s
             @ AthenaStartQueryExecution
                 (safe_substitute [''DATA_BUCKET'' \<mapsto> DATA_BUCKET g] template)
                 (DATABASE g)
                 (''s3://'' @ RESULTS_BUCKET g @ ''/athena-query-results/'')
             # rest"
  using assms
  by (auto simp: create_tables_via_athena_round_def create_tables_via_athena_try_def
      Template_safe_substitute_def execute_query_def log_def emit_def Let_def
      split: prod.splits sum.splits bool.splits option.splits)

theorem query_resolved_with_DATA_BUCKET_witness:
  "subscript query_t1 ''query'' = Inr (JStr ''CREATE TABLE t1 AT ${DATA_BUCKET}/t1'')
   \<and> trace (snd (create_tables_via_athena_round example_services example_globals query_t1
                    (0, []) start))
     = [AthenaStartQueryExecution ''CREATE TABLE t1 AT b/t1'' ''db'' ''s3://r/athena-query-results/'',
        Log INFO ''Successfully executed query: CREATE TABLE t1 AT b/t1'',
        Log INFO ''Successfully created table: t1'']"
proof -
  have q: "subscript query_t1 ''query'' = Inr (JStr ''CREATE TABLE t1 AT ${DATA_BUCKET}/t1'')"
    by (simp add: query_t1_def)
  have r: "safe_substitute [''DATA_BUCKET'' \<mapsto> DATA_BUCKET example_globals]
             ''CREATE TABLE t1 AT ${DATA_BUCKET}/t1'' = ''CREATE TABLE t1 AT b/t1''"
    by (simp add: scan_defs example_globals_def)
  obtain rest where t: "trace (snd (create_tables_via_athena_round example_services example_globals
                    query_t1 (0, []) start))
     = trace start
       @ AthenaStartQueryExecution
           (safe_substitute [''DATA_BUCKET'' \<mapsto> DATA_BUCKET example_globals]
              ''CREATE TABLE t1 AT ${DATA_BUCKET}/t1'')
           (DATABASE example_globals)
           (''s3://'' @ RESULTS_BUCKET example_globals @ ''/athena-query-results/'')
       # rest"
    using query_resolved_with_DATA_BUCKET [OF q] by blast
  have "trace (snd (create_tables_via_athena_round example_services example_globals query_t1
                    (0, []) start))
     = [AthenaStartQueryExecution ''CREATE TABLE t1 AT b/t1'' ''db'' ''s3://r/athena-query-results/'',
        Log INFO ''Successfully executed query: CREATE TABLE t1 AT b/t1'',
        Log INFO ''Successfully created table: t1'']"
    using t by (simp add: run_defs athena_defs)
  with q show ?thesis by blast
qed

text \<open>
  The placeholder is not named \<^verbatim>\<open>DATA_LOCATION\<close>: a query that uses that name is
  sent as it is written, not with the bucket in its place.
\<close>

theorem DATA_LOCATION_not_resolved:
  "AthenaStartQueryExecution
     (safe_substitute [''DATA_LOCATION'' \<mapsto> DATA_BUCKET example_globals]
        ''CREATE TABLE t1 AT ${DATA_LOCATION}/t1'')
     (DATABASE example_globals) ''s3://r/athena-query-results/''
   \<notin> set (trace (snd (create_tables_via_athena example_services example_globals
                        (JArr [query_data_location]) start)))
   \<and> AthenaStartQueryExecution ''CREATE TABLE t1 AT ${DATA_LOCATION}/t1''
     (DATABASE example_globals) ''s3://r/athena-query-results/''
   \<in> set (trace (snd (create_tables_via_athena example_services example_globals
                        (JArr [query_data_location]) start)))"
  by (simp add: athena_defs run_defs query_data_location_def)

section \<open>The table definition sent to Glue\<close>

lemma column_definitions_zip:
  "column_definitions cols = Inr ds \<Longrightarrow>
     list_all2 (\<lambda>col d. subscript col ''name'' = Inr (Name d) \<and> subscript col ''type'' = Inr (Type d))
       cols ds"
  by (induction cols arbitrary: ds) (auto split: sum.splits)

text \<open>
  C8, as the program has it. When \<^verbatim>\<open>create_table\<close> builds a definition for a
  configuration, that definition is what it sends to Glue, first of all it does. Its
  columns are those of the configuration, in order, each with the \<^verbatim>\<open>name\<close> and the
  \<^verbatim>\<open>type\<close> of its source; its location is \<^verbatim>\<open>s3://\<close>, then the module's
  \<^verbatim>\<open>DATA_BUCKET\<close>, then \<^verbatim>\<open>/\<close>, then the \<^verbatim>\<open>location\<close> of the configuration;
  its type is \<^verbatim>\<open>EXTERNAL_TABLE\<close>; its description is that of the configuration,
  the empty str when the configuration has none.
\<close>

theorem table_definition_submitted:
  assumes "make_table_input sv g c = Inr ti"
  shows "(\<exists>rest. trace (snd (create_table sv g c s))
            = trace s @ GlueCreateTable (DATABASE g) ti # rest)
       \<and> (\<exists>columns_config cols loc.
            subscript c ''columns'' = Inr columns_config
            \<and> py_iter columns_config = Inr cols
            \<and> list_all2 (\<lambda>col d. subscript col ''name'' = Inr (Name d)
                                  \<and> subscript col ''type'' = Inr (Type d))
                 cols (Columns (StorageDescriptor ti))
            \<and> subscript c ''location'' = Inr loc
            \<and> Location (StorageDescriptor ti)
                = ''s3://'' @ DATA_BUCKET g @ ''/'' @ format_value (repr sv) loc
            \<and> (\<forall>l. loc = JStr l \<longrightarrow>
                  Location (StorageDescriptor ti) = ''s3://'' @ DATA_BUCKET g @ ''/'' @ l))
       \<and> TableType ti = ''EXTERNAL_TABLE''
       \<and> dict_get c ''description'' (JStr []) = Inr (Description ti)
       \<and> (\<forall>d. c = JObj d \<and> map_of d ''description'' = None \<longrightarrow> Description ti = JStr [])"
proof (intro conjI)
  show "\<exists>rest. trace (snd (create_table sv g c s))
            = trace s @ GlueCreateTable (DATABASE g) ti # rest"
    using assms
    by (auto simp: create_table_def create_table_try_def create_table_except_def log_def emit_def
        Let_def split: prod.splits sum.splits option.splits exn.splits)
  show "\<exists>columns_config cols loc.
            subscript c ''columns'' = Inr columns_config
            \<and> py_iter columns_config = Inr cols
            \<and> list_all2 (\<lambda>col d. subscript col ''name'' = Inr (Name d)
                                  \<and> subscript col ''type'' = Inr (Type d))
                 cols (Columns (StorageDescriptor ti))
            \<and> subscript c ''location'' = Inr loc
            \<and> Location (StorageDescriptor ti)
                = ''s3://'' @ DATA_BUCKET g @ ''/'' @ format_value (repr sv) loc
            \<and> (\<forall>l. loc = JStr l \<longrightarrow>
                  Location (StorageDescriptor ti) = ''s3://'' @ DATA_BUCKET g @ ''/'' @ l)"
    using assms
    by (auto simp: make_table_input_def parse_column_definitions_def format_value_def
        split: sum.splits dest: column_definitions_zip)
  show "TableType ti = ''EXTERNAL_TABLE''"
    using assms by (auto simp: make_table_input_def split: sum.splits)
  show d: "dict_get c ''description'' (JStr []) = Inr (Description ti)"
    using assms by (auto simp: make_table_input_def split: sum.splits)
  show "\<forall>d. c = JObj d \<and> map_of d ''description'' = None \<longrightarrow> Description ti = JStr []"
    using d by auto
qed

theorem table_definition_submitted_witness:
  "make_table_input example_services example_globals config_t1 = Inr table_input_t1
   \<and> trace (snd (create_table example_services example_globals config_t1 start))
     = [GlueCreateTable ''db'' table_input_t1, Log INFO ''Successfully created table: t1'']
   \<and> Columns (StorageDescriptor table_input_t1) = [\<lparr>Name = JStr ''id'', Type = JStr ''int''\<rparr>]
   \<and> Location (StorageDescriptor table_input_t1) = ''s3://b/t1/''
   \<and> TableType table_input_t1 = ''EXTERNAL_TABLE''
   \<and> Description table_input_t1 = JStr []"
proof -
  have ti: "make_table_input example_services example_globals config_t1 = Inr table_input_t1"
    by (simp add: run_defs table_input_t1_def)
  note inst = table_definition_submitted [OF ti, of start]
  have loc: "subscript config_t1 ''location'' = Inr (JStr ''t1/'')"
    by (simp add: config_t1_def)
  have a: "Location (StorageDescriptor table_input_t1) = ''s3://b/t1/''"
    using inst loc by (auto simp: example_globals_def)
  have b: "TableType table_input_t1 = ''EXTERNAL_TABLE''"
    using inst by blast
  have "map_of [(''name'', JStr ''t1''),
           (''columns'', JArr [JObj [(''name'', JStr ''id''), (''type'', JStr ''int'')]]),
           (''location'', JStr ''t1/'')] ''description'' = None"
    by simp
  then have c: "Description table_input_t1 = JStr []"
    using inst config_t1_def by blast
  have d: "trace (snd (create_table example_services example_globals config_t1 start))
     = [GlueCreateTable ''db'' table_input_t1, Log INFO ''Successfully created table: t1'']"
    using inst by (simp add: run_defs table_input_t1_def)
  have e: "Columns (StorageDescriptor table_input_t1) = [\<lparr>Name = JStr ''id'', Type = JStr ''int''\<rparr>]"
    by (simp add: table_input_t1_def)
  from ti d e a b c show ?thesis by blast
qed

text \<open>
  The location is not the bucket followed by \<^verbatim>\<open>/\<close> and the configuration's
  location: the scheme \<^verbatim>\<open>s3://\<close> comes first.
\<close>

theorem location_has_s3_scheme:
  "make_table_input example_services example_globals config_t1
   \<noteq> Inr \<lparr>TableName = JStr ''t1'', DatabaseName = ''db'', Description = JStr [],
           TableType = ''EXTERNAL_TABLE'',
           StorageDescriptor =
             \<lparr>Columns = [\<lparr>Name = JStr ''id'', Type = JStr ''int''\<rparr>],
              Location = DATA_BUCKET example_globals @ ''/'' @ ''t1/''\<rparr>\<rparr>
   \<and> make_table_input example_services example_globals config_t1
   = Inr \<lparr>TableName = JStr ''t1'', DatabaseName = ''db'', Description = JStr [],
           TableType = ''EXTERNAL_TABLE'',
           StorageDescriptor =
             \<lparr>Columns = [\<lparr>Name = JStr ''id'', Type = JStr ''int''\<rparr>],
              Location = ''s3://b/t1/''\<rparr>\<rparr>"
  by (simp add: run_defs)

section \<open>The environment\<close>

text \<open>
  Once the module is imported, a handler called under an environment that lacks a
  required variable, or has it empty, returns status 500 with the message of
  \<^verbatim>\<open>validate_env_vars\<close>, and does nothing but log: the configuration file is not
  opened and no service is called.
\<close>

lemma lambda_handler_missing_env:
  assumes "missing_vars [''DATABASE_NAME'', ''DATA_BUCKET''] environ = m" and "m \<noteq> []"
  shows "lambda_handler sv g environ s
       = (\<lparr>statusCode = 500,
           body = Error (''Missing required environment variables: '' @ join '', '' m)\<rparr>,
          s\<lparr>trace := trace s @
               [Log ERROR (''Error: Missing required environment variables: '' @ join '', '' m),
                LogTraceback (ValueError (''Missing required environment variables: ''
                                          @ join '', '' m))]\<rparr>)"
  using assms
  by (simp add: lambda_handler_def validate_env_vars_def raise_if_missing_def
      lambda_handler_except_def log_def emit_def)

lemma lambda_handler_via_athena_missing_env:
  assumes "missing_vars [''DATABASE_NAME'', ''DATA_BUCKET'', ''RESULTS_BUCKET''] environ = m"
    and "m \<noteq> []"
  shows "lambda_handler_via_athena sv g environ s
       = (\<lparr>statusCode = 500,
           body = Error (''Missing required environment variables: '' @ join '', '' m)\<rparr>,
          s\<lparr>trace := trace s @
               [Log ERROR (''Error: Missing required environment variables: '' @ join '', '' m),
                LogTraceback (ValueError (''Missing required environment variables: ''
                                          @ join '', '' m))]\<rparr>)"
  using assms
  by (simp add: lambda_handler_via_athena_def validate_env_vars_via_athena_def raise_if_missing_def
      lambda_handler_except_def log_def emit_def)

text \<open>
  C5. An invocation without a required variable should be answered with status 500.
  In a fresh process whose environment has no \<^verbatim>\<open>DATABASE_NAME\<close> the module itself
  raises \<^verbatim>\<open>KeyError\<close> at \<^verbatim>\<open>os.environ['DATABASE_NAME']\<close>, in either program: the
  handler is never called and returns nothing. (Nothing else happens either: the state
  is the one before.)
\<close>

theorem import_fails_without_DATABASE_NAME:
  "import_and_invoke example_services environ_without_database start
     = (ImportFailed (KeyError ''DATABASE_NAME''), start)
   \<and> import_and_invoke_via_athena example_services environ_without_database start
     = (ImportFailed (KeyError ''DATABASE_NAME''), start)"
  by (simp add: handler_defs)

section \<open>Placeholders\<close>

text \<open>The pieces \<^verbatim>\<open>scan\<close> cuts a template into, put together again, are the template.\<close>

lemma scan_source: "concat (map source (scan t)) = t"
proof (induction t rule: scan.induct)
  case 1
  then show ?case by simp
next
  case (2 c cs)
  consider (plain) "c \<noteq> CHR ''$''"
    | (escaped) "c = CHR ''$''" "cs \<noteq> [] \<and> hd cs = CHR ''$''"
    | (named) "c = CHR ''$''" "\<not> (cs \<noteq> [] \<and> hd cs = CHR ''$'')" "cs \<noteq> [] \<and> is_id_start (hd cs)"
    | (braced) "c = CHR ''$''" "\<not> (cs \<noteq> [] \<and> hd cs = CHR ''$'')" "\<not> (cs \<noteq> [] \<and> is_id_start (hd cs))"
        "braced_ahead cs"
    | (invalid) "c = CHR ''$''" "\<not> (cs \<noteq> [] \<and> hd cs = CHR ''$'')" "\<not> (cs \<noteq> [] \<and> is_id_start (hd cs))"
        "\<not> braced_ahead cs"
    by blast
  then show ?case
  proof cases
    case plain
    then show ?thesis using "2.IH"(1) by (simp add: scan.simps(2))
  next
    case escaped
    then have "cs = CHR ''$'' # tl cs" by (cases cs) auto
    then show ?thesis using escaped "2.IH"(2)
      by (simp add: scan.simps(2))
  next
    case named
    then show ?thesis using "2.IH"(3) by (simp add: scan.simps(2))
  next
    case braced
    from braced(4) obtain ds rest where cs: "cs = CHR ''{'' # ds"
      and dw: "dropWhile is_id_char ds = CHR ''}'' # rest"
      by (auto simp: braced_ahead_def split: list.splits)
    have "takeWhile is_id_char ds @ CHR ''}'' # rest = ds"
      using takeWhile_dropWhile_id [of is_id_char ds] dw by simp
    then show ?thesis using braced "2.IH"(4) cs dw by (simp add: scan.simps(2))
  next
    case invalid
    then show ?thesis using "2.IH"(5) by (auto simp: scan.simps(2))
  qed
qed

text \<open>
  What the scan does at the head of a template, case by case of what is written there.
\<close>

lemma id_start_not_dollar: "is_id_start c \<Longrightarrow> c \<noteq> CHR ''$''"
  by (auto simp: is_id_start_def)

lemma id_start_id_char: "is_id_start c \<Longrightarrow> is_id_char c"
  by (simp add: is_id_char_def)

lemma not_id_char_brace: "\<not> is_id_char CHR ''}''" "\<not> is_id_start CHR ''{''"
  by (simp_all add: is_id_char_def is_id_start_def)

lemma identifier_chars: "is_identifier n \<Longrightarrow> n \<noteq> [] \<and> is_id_start (hd n) \<and> (\<forall>c \<in> set n. is_id_char c)"
  by (cases n) (auto simp: is_identifier_def list_all_iff id_start_id_char)

lemma takeWhile_identifier:
  assumes "is_identifier n" and "r = [] \<or> \<not> is_id_char (hd r)"
  shows "takeWhile is_id_char (n @ r) = n" and "dropWhile is_id_char (n @ r) = r"
proof -
  have all: "\<forall>c \<in> set n. is_id_char c" using identifier_chars [OF assms(1)] by simp
  have r: "takeWhile is_id_char r = []" "dropWhile is_id_char r = r"
    using assms(2) by (cases r; simp)+
  show "takeWhile is_id_char (n @ r) = n"
    using all r by (simp add: takeWhile_append2)
  show "dropWhile is_id_char (n @ r) = r"
    using all r by (simp add: dropWhile_append2)
qed

lemma scan_literal: "CHR ''$'' \<notin> set t \<Longrightarrow> scan (t @ r) = map Text t @ scan r"
  by (induction t) (auto simp: scan.simps(2))

lemma scan_escape: "scan (CHR ''$'' # CHR ''$'' # r) = Match Escaped # scan r"
  by (simp add: scan.simps(2))

lemma scan_bare:
  assumes "is_identifier n" and "r = [] \<or> \<not> is_id_char (hd r)"
  shows "scan (CHR ''$'' # n @ r) = Match (Named n) # scan r"
proof -
  from identifier_chars [OF assms(1)] obtain c cs where n: "n = c # cs" and c: "is_id_start c"
    by (cases n) auto
  have "c \<noteq> CHR ''$''" using c by (rule id_start_not_dollar)
  then show ?thesis
    using takeWhile_identifier [OF assms] n c
    by (simp add: scan.simps(2))
qed

lemma scan_placeholder:
  assumes "is_identifier n"
  shows "scan (CHR ''$'' # CHR ''{'' # n @ CHR ''}'' # r) = Match (Braced n) # scan r"
proof -
  from identifier_chars [OF assms] obtain c cs where n: "n = c # cs" and c: "is_id_start c"
    by (cases n) auto
  have tw: "takeWhile is_id_char (n @ CHR ''}'' # r) = n"
    and dw: "dropWhile is_id_char (n @ CHR ''}'' # r) = CHR ''}'' # r"
    using takeWhile_identifier [OF assms, of "CHR ''}'' # r"] not_id_char_brace by simp_all
  have "braced_ahead (CHR ''{'' # n @ CHR ''}'' # r)"
    using dw n c by (simp add: braced_ahead_def)
  then show ?thesis
    using tw dw not_id_char_brace by (simp add: scan.simps(2))
qed

lemma scan_dollar:
  assumes "case r of [] \<Rightarrow> True
       | c # cs \<Rightarrow> c \<noteq> CHR ''$'' \<and> \<not> is_id_start c \<and> \<not> braced_ahead (c # cs)"
  shows "scan (CHR ''$'' # r) = Match Invalid # scan r"
  using assms by (cases r) (auto simp: scan.simps(2) braced_ahead_def)

text \<open>
  The scan of a well-formed reading finds exactly its parts, and every template is
  written by a well-formed reading.
\<close>

lemma scan_well_formed:
  "well_formed ps \<Longrightarrow> scan (concat (map written ps)) = concat (map pieces ps)"
proof (induction ps)
  case Nil
  then show ?case by simp
next
  case (Cons p ps)
  show ?case
  proof (cases p)
    case (Literal t)
    then show ?thesis using Cons by (simp add: scan_literal)
  next
    case (Placeholder n)
    then show ?thesis using Cons scan_placeholder [of n "concat (map written ps)"] by simp
  next
    case (Bare n)
    then have "concat (map written ps) = [] \<or> \<not> is_id_char (hd (concat (map written ps)))"
      using Cons.prems by (auto split: list.splits)
    then show ?thesis using Bare Cons scan_bare [of n "concat (map written ps)"] by simp
  next
    case Escape
    then show ?thesis using Cons by (simp add: scan_escape)
  next
    case Dollar
    then show ?thesis using Cons scan_dollar [of "concat (map written ps)"] by simp
  qed
qed

lemma replace_text: "concat (map (replace mapping \<circ> Text) t) = t"
  by (induction t) simp_all

lemma replace_pieces: "concat (map (replace mapping) (pieces p)) = resolved mapping p"
  by (cases p) (simp_all add: replace_text split: option.splits)

lemma safe_substitute_well_formed:
  assumes "well_formed ps"
  shows "safe_substitute mapping (concat (map written ps)) = concat (map (resolved mapping) ps)"
proof -
  have "concat (map (replace mapping) (concat (map pieces ps))) = concat (map (resolved mapping) ps)"
    by (induction ps) (simp_all add: replace_pieces)
  then show ?thesis
    by (simp add: safe_substitute_def scan_well_formed [OF assms])
qed

lemma written_part_of: "written (part_of p) = source p"
  by (cases p; cases "case p of Match m \<Rightarrow> m | _ \<Rightarrow> Invalid") auto

lemma written_scan: "concat (map written (map part_of (scan t))) = t"
proof -
  have "map written (map part_of (scan t)) = map source (scan t)"
    by (simp add: written_part_of)
  then show ?thesis by (simp only: scan_source)
qed

lemma is_identifier_takeWhile:
  "cs \<noteq> [] \<Longrightarrow> is_id_start (hd cs) \<Longrightarrow> is_identifier (takeWhile is_id_char cs)"
proof (cases cs)
  case Nil
  assume "cs \<noteq> []" with Nil show ?thesis by simp
next
  case (Cons c cs')
  assume "is_id_start (hd cs)"
  then have "is_id_start c" using Cons by simp
  moreover have "list_all is_id_char (takeWhile is_id_char cs')"
    by (simp add: list_all_iff) (meson set_takeWhileD)
  ultimately show ?thesis using Cons by (simp add: is_identifier_def id_start_id_char)
qed

lemma dropWhile_stops: "dropWhile P xs = x # ys \<Longrightarrow> \<not> P x"
  by (induction xs) (auto split: if_splits)

lemma well_formed_scan: "well_formed (map part_of (scan t))"
proof (induction t rule: scan.induct)
  case 1
  then show ?case by simp
next
  case (2 c cs)
  consider (plain) "c \<noteq> CHR ''$''"
    | (escaped) "c = CHR ''$''" "cs \<noteq> [] \<and> hd cs = CHR ''$''"
    | (named) "c = CHR ''$''" "\<not> (cs \<noteq> [] \<and> hd cs = CHR ''$'')" "cs \<noteq> [] \<and> is_id_start (hd cs)"
    | (braced) "c = CHR ''$''" "\<not> (cs \<noteq> [] \<and> hd cs = CHR ''$'')" "\<not> (cs \<noteq> [] \<and> is_id_start (hd cs))"
        "braced_ahead cs"
    | (invalid) "c = CHR ''$''" "\<not> (cs \<noteq> [] \<and> hd cs = CHR ''$'')" "\<not> (cs \<noteq> [] \<and> is_id_start (hd cs))"
        "\<not> braced_ahead cs"
    by blast
  then show ?case
  proof cases
    case plain
    then show ?thesis using "2.IH"(1) by (simp add: scan.simps(2))
  next
    case escaped
    then show ?thesis using "2.IH"(2) by (simp add: scan.simps(2))
  next
    case named
    have "case dropWhile is_id_char cs of [] \<Rightarrow> True | x # xs \<Rightarrow> \<not> is_id_char x"
      by (auto split: list.splits dest: dropWhile_stops)
    then show ?thesis
      using named "2.IH"(3) is_identifier_takeWhile [of cs]
      by (simp add: scan.simps(2) written_scan del: map_map)
  next
    case braced
    from braced(4) obtain d ds where cs: "cs = CHR ''{'' # d # ds" and d: "is_id_start d"
      by (auto simp: braced_ahead_def split: list.splits)
    have "is_identifier (takeWhile is_id_char (tl cs))"
      using is_identifier_takeWhile [of "tl cs"] cs d by simp
    then show ?thesis
      using braced "2.IH"(4) by (auto simp: scan.simps(2))
  next
    case invalid
    have "case cs of [] \<Rightarrow> True
       | x # xs \<Rightarrow> x \<noteq> CHR ''$'' \<and> \<not> is_id_start x \<and> \<not> braced_ahead (x # xs)"
      using invalid by (cases cs) auto
    then show ?thesis
      using invalid "2.IH"(5) by (auto simp: scan.simps(2) written_scan simp del: map_map)
  qed
qed

text \<open>
  What makes a lone \<^verbatim>\<open>$\<close>: the test \<open>braced_ahead\<close> of the scan holds exactly
  when a name between braces comes next.
\<close>

lemma braced_ahead_iff:
  "braced_ahead cs \<longleftrightarrow> (\<exists>n r. is_identifier n \<and> cs = CHR ''{'' # n @ CHR ''}'' # r)"
proof
  assume "braced_ahead cs"
  then obtain d ds r where cs: "cs = CHR ''{'' # d # ds" and d: "is_id_start d"
    and dw: "dropWhile is_id_char (d # ds) = CHR ''}'' # r"
    by (auto simp: braced_ahead_def split: list.splits)
  have "is_identifier (takeWhile is_id_char (d # ds))"
    using is_identifier_takeWhile [of "d # ds"] d by simp
  moreover have "d # ds = takeWhile is_id_char (d # ds) @ CHR ''}'' # r"
    using takeWhile_dropWhile_id [of is_id_char "d # ds"] dw by simp
  ultimately show "\<exists>n r. is_identifier n \<and> cs = CHR ''{'' # n @ CHR ''}'' # r"
    using cs by blast
next
  assume "\<exists>n r. is_identifier n \<and> cs = CHR ''{'' # n @ CHR ''}'' # r"
  then obtain n r where n: "is_identifier n" and cs: "cs = CHR ''{'' # n @ CHR ''}'' # r"
    by blast
  from identifier_chars [OF n] obtain c cs' where nn: "n = c # cs'" and c: "is_id_start c"
    by (cases n) auto
  have "dropWhile is_id_char (n @ CHR ''}'' # r) = CHR ''}'' # r"
    using takeWhile_identifier [OF n, of "CHR ''}'' # r"] not_id_char_brace by simp
  then show "braced_ahead cs"
    using cs nn c by (simp add: braced_ahead_def)
qed

text \<open>
  C6. Whatever well-formed reading a template has, \<^verbatim>\<open>safe_substitute\<close> returns the
  reading resolved part by part: every placeholder, braced or bare, whose name is in
  the mapping is replaced by the value the mapping gives, every placeholder whose name
  is not in the mapping stays as it is written, and so does the literal text (an escape
  \<^verbatim>\<open>$$\<close> gives \<^verbatim>\<open>$\<close>, a lone \<^verbatim>\<open>$\<close> stays). Every template has such a
  reading, so this is all \<^verbatim>\<open>safe_substitute\<close> does, and on a str it never fails.
  The two examples: \<^verbatim>\<open>SELECT * FROM '${DATA_BUCKET}/x'\<close> under
  \<^verbatim>\<open>DATA_BUCKET = b\<close> becomes \<^verbatim>\<open>SELECT * FROM 'b/x'\<close>, and \<^verbatim>\<open>${UNKNOWN}\<close>
  stays.
\<close>

theorem safe_substitute_resolves_placeholders:
  "(well_formed ps \<longrightarrow>
      safe_substitute mapping (concat (map written ps)) = concat (map (resolved mapping) ps))
   \<and> (\<exists>qs. well_formed qs \<and> concat (map written qs) = template)
   \<and> Template_safe_substitute (JStr template) mapping = Inr (safe_substitute mapping template)
   \<and> safe_substitute [''DATA_BUCKET'' \<mapsto> ''b''] (''SELECT * FROM '' @ quoted ''${DATA_BUCKET}/x'')
       = ''SELECT * FROM '' @ quoted ''b/x''
   \<and> safe_substitute [''DATA_BUCKET'' \<mapsto> ''b''] ''${UNKNOWN}'' = ''${UNKNOWN}''"
proof (intro conjI impI)
  assume "well_formed ps"
  then show "safe_substitute mapping (concat (map written ps)) = concat (map (resolved mapping) ps)"
    by (rule safe_substitute_well_formed)
next
  show "\<exists>qs. well_formed qs \<and> concat (map written qs) = template"
    using well_formed_scan [of template] written_scan [of template] by blast
  show "Template_safe_substitute (JStr template) mapping = Inr (safe_substitute mapping template)"
    by (simp add: Template_safe_substitute_def)
  show "safe_substitute [''DATA_BUCKET'' \<mapsto> ''b''] (''SELECT * FROM '' @ quoted ''${DATA_BUCKET}/x'')
       = ''SELECT * FROM '' @ quoted ''b/x''"
    by (simp add: scan_defs quoted_def)
  show "safe_substitute [''DATA_BUCKET'' \<mapsto> ''b''] ''${UNKNOWN}'' = ''${UNKNOWN}''"
    by (simp add: scan_defs)
qed

theorem safe_substitute_resolves_placeholders_witness:
  "well_formed [Literal ''FROM '', Placeholder ''DATA_BUCKET'', Literal ''/'', Bare ''X'',
                Literal '' '', Escape, Dollar, Literal ''.'']
   \<and> concat (map written [Literal ''FROM '', Placeholder ''DATA_BUCKET'', Literal ''/'', Bare ''X'',
                Literal '' '', Escape, Dollar, Literal ''.''])
     = ''FROM ${DATA_BUCKET}/$X $$$.''
   \<and> safe_substitute [''DATA_BUCKET'' \<mapsto> ''b''] ''FROM ${DATA_BUCKET}/$X $$$.''
     = ''FROM b/$X $$.''"
proof -
  let ?ps = "[Literal ''FROM '', Placeholder ''DATA_BUCKET'', Literal ''/'', Bare ''X'',
                Literal '' '', Escape, Dollar, Literal ''.'']"
  have wf: "well_formed ?ps"
    by (simp add: is_identifier_def is_id_start_def is_id_char_def braced_ahead_def)
  have w: "concat (map written ?ps) = ''FROM ${DATA_BUCKET}/$X $$$.''"
    by simp
  have "safe_substitute [''DATA_BUCKET'' \<mapsto> ''b''] (concat (map written ?ps))
      = concat (map (resolved [''DATA_BUCKET'' \<mapsto> ''b'']) ?ps)"
    using safe_substitute_resolves_placeholders [of ?ps] wf by blast
  then have "safe_substitute [''DATA_BUCKET'' \<mapsto> ''b''] ''FROM ${DATA_BUCKET}/$X $$$.''
     = ''FROM b/$X $$.''"
    by (simp only: w) simp
  with wf w show ?thesis by blast
qed

section \<open>A configuration without a name\<close>

text \<open>
  The lookup \<^verbatim>\<open>config['name']\<close> that fails in the \<^verbatim>\<open>try\<close> block fails again in the
  handler, so the exception leaves the round, the loop and the function.
\<close>

lemma create_table_no_name:
  "subscript c ''name'' = Inl e \<Longrightarrow> create_table sv g c s = (Inl e, s)"
  by (simp add: create_table_def create_table_try_def create_table_except_def make_table_input_def
      split: exn.splits)

lemma create_tables_round_no_name:
  "subscript c ''name'' = Inl e \<Longrightarrow> create_tables_round sv g c acc s = (Inl e, s)"
  by (simp add: create_tables_round_def create_table_no_name)

lemma create_tables_via_athena_round_no_name:
  "subscript c ''name'' = Inl e \<Longrightarrow>
     \<exists>s1. create_tables_via_athena_round sv g c acc s = (Inl e, s1)"
  by (auto simp: create_tables_via_athena_round_def create_tables_via_athena_try_def
      split: prod.splits sum.splits bool.splits)

lemma create_tables_loop_stops:
  assumes "subscript c ''name'' = Inl e"
  shows "\<exists>e' s1. create_tables_loop sv g (pre @ c # post) acc s = (Inl e', s1)
           \<and> create_tables_loop sv g (pre @ [c]) acc s = (Inl e', s1)"
proof (induction pre arbitrary: acc s)
  case Nil
  then show ?case by (simp add: create_tables_round_no_name [OF assms])
next
  case (Cons a pre)
  show ?case
  proof (cases "create_tables_round sv g a acc s")
    case (Pair r s2)
    then show ?thesis using Cons.IH by (cases r) auto
  qed
qed

lemma create_tables_via_athena_loop_stops:
  assumes "subscript c ''name'' = Inl e"
  shows "\<exists>e' s1. create_tables_via_athena_loop sv g (pre @ c # post) acc s = (Inl e', s1)
           \<and> create_tables_via_athena_loop sv g (pre @ [c]) acc s = (Inl e', s1)"
proof (induction pre arbitrary: acc s)
  case Nil
  then show ?case using create_tables_via_athena_round_no_name [OF assms, of sv g acc s] by auto
next
  case (Cons a pre)
  show ?case
  proof (cases "create_tables_via_athena_round sv g a acc s")
    case (Pair r s2)
    then show ?thesis using Cons.IH by (cases r) auto
  qed
qed

lemma create_tables_stops:
  assumes "subscript c ''name'' = Inl e"
  shows "\<exists>e' s1. create_tables sv g (JArr (pre @ c # post)) s = (Inl e', s1)
           \<and> create_tables sv g (JArr (pre @ [c])) s = (Inl e', s1)"
  using create_tables_loop_stops [OF assms, of sv g pre post "(0, [])" s]
  by (auto simp: create_tables_def)

lemma create_tables_via_athena_stops:
  assumes "subscript c ''name'' = Inl e"
  shows "\<exists>e' s1. create_tables_via_athena sv g (JArr (pre @ c # post)) s = (Inl e', s1)
           \<and> create_tables_via_athena sv g (JArr (pre @ [c])) s = (Inl e', s1)"
  using create_tables_via_athena_loop_stops [OF assms, of sv g pre post "(0, [])" s]
  by (auto simp: create_tables_via_athena_def)

lemma read_table_configs_ok:
  "table_configs_json sv = Inr doc \<Longrightarrow> subscript doc ''tables'' = Inr tables \<Longrightarrow>
     read_table_configs sv s = (Inr tables, emit OpenTableConfigs s)"
  by (simp add: read_table_configs_def Let_def)

text \<open>
  C10. When a configuration of the batch has no \<^verbatim>\<open>name\<close> (the lookup raises), the
  handler of its round raises too and \<^verbatim>\<open>create_tables\<close> ends with an exception, in
  either program: there is no report; the outcome and the final state, trace included,
  are those of the batch cut after that configuration, so nothing after it is
  attempted; and \<^verbatim>\<open>lambda_handler\<close>, given the batch by the configuration file,
  returns status 500 with an error body.
\<close>

theorem config_without_name_aborts_batch:
  assumes "subscript c ''name'' = Inl e"
  shows "(\<exists>e' s1. create_tables sv g (JArr (pre @ c # post)) s = (Inl e', s1)
            \<and> create_tables sv g (JArr (pre @ [c])) s = (Inl e', s1))
       \<and> (\<exists>e' s1. create_tables_via_athena sv g' (JArr (pre @ c # post)) s = (Inl e', s1)
            \<and> create_tables_via_athena sv g' (JArr (pre @ [c])) s = (Inl e', s1))
       \<and> (table_configs_json sv = Inr doc \<and> subscript doc ''tables'' = Inr (JArr (pre @ c # post)) \<longrightarrow>
            statusCode (fst (lambda_handler sv g environ s)) = 500
            \<and> (\<exists>m. body (fst (lambda_handler sv g environ s)) = Error m)
            \<and> statusCode (fst (lambda_handler_via_athena sv g' environ s)) = 500
            \<and> (\<exists>m. body (fst (lambda_handler_via_athena sv g' environ s)) = Error m))"
proof (intro conjI impI)
  show "\<exists>e' s1. create_tables sv g (JArr (pre @ c # post)) s = (Inl e', s1)
            \<and> create_tables sv g (JArr (pre @ [c])) s = (Inl e', s1)"
    by (rule create_tables_stops [OF assms])
  show "\<exists>e' s1. create_tables_via_athena sv g' (JArr (pre @ c # post)) s = (Inl e', s1)
            \<and> create_tables_via_athena sv g' (JArr (pre @ [c])) s = (Inl e', s1)"
    by (rule create_tables_via_athena_stops [OF assms])
next
  assume cfg: "table_configs_json sv = Inr doc \<and> subscript doc ''tables'' = Inr (JArr (pre @ c # post))"
  have r: "read_table_configs sv s' = (Inr (JArr (pre @ c # post)), emit OpenTableConfigs s')" for s'
    using cfg read_table_configs_ok by blast
  have h: "statusCode (fst (lambda_handler sv g environ s)) = 500
       \<and> (\<exists>m. body (fst (lambda_handler sv g environ s)) = Error m)"
  proof (cases "validate_env_vars environ")
    case (Inl a)
    then show ?thesis by (simp add: lambda_handler_def lambda_handler_except_def)
  next
    case (Inr b)
    obtain e' s1 where "create_tables sv g (JArr (pre @ c # post))
        (emit OpenTableConfigs (log INFO (''Data Bucket: '' @ DATA_BUCKET g)
                      (log INFO (''Using Database: '' @ DATABASE g)
                         (log INFO ''Starting table creation process'' s)))) = (Inl e', s1)"
      using create_tables_stops [OF assms] by blast
    then show ?thesis
      using Inr r by (simp add: lambda_handler_def lambda_handler_except_def Let_def)
  qed
  have h': "statusCode (fst (lambda_handler_via_athena sv g' environ s)) = 500
       \<and> (\<exists>m. body (fst (lambda_handler_via_athena sv g' environ s)) = Error m)"
  proof (cases "validate_env_vars_via_athena environ")
    case (Inl a)
    then show ?thesis by (simp add: lambda_handler_via_athena_def lambda_handler_except_def)
  next
    case (Inr b)
    obtain e' s1 where "create_tables_via_athena sv g' (JArr (pre @ c # post))
        (emit OpenTableConfigs (log INFO (''Results Bucket: '' @ RESULTS_BUCKET g')
                      (log INFO (''Data Bucket: '' @ DATA_BUCKET g')
                         (log INFO (''Using Database: '' @ DATABASE g')
                            (log INFO ''Starting table creation process'' s))))) = (Inl e', s1)"
      using create_tables_via_athena_stops [OF assms] by blast
    then show ?thesis
      using Inr r by (simp add: lambda_handler_via_athena_def lambda_handler_except_def Let_def)
  qed
  from h show "statusCode (fst (lambda_handler sv g environ s)) = 500" by simp
  from h show "\<exists>m. body (fst (lambda_handler sv g environ s)) = Error m" by simp
  from h' show "statusCode (fst (lambda_handler_via_athena sv g' environ s)) = 500" by simp
  from h' show "\<exists>m. body (fst (lambda_handler_via_athena sv g' environ s)) = Error m" by simp
qed

theorem config_without_name_aborts_batch_witness:
  "subscript config_no_name ''name'' = Inl (KeyError ''name'')
   \<and> create_tables example_services example_globals
        (JArr [config_t1, config_no_name, config_t1]) start
     = create_tables example_services example_globals (JArr [config_t1, config_no_name]) start
   \<and> create_tables example_services example_globals
        (JArr [config_t1, config_no_name, config_t1]) start
     = (Inl (KeyError ''name''),
        \<lparr>world = [JStr ''t1''],
         trace = [GlueCreateTable ''db'' table_input_t1,
                  Log INFO ''Successfully created table: t1'']\<rparr>)
   \<and> create_tables_via_athena example_services example_globals
        (JArr [query_t1, config_no_name, query_t1]) start
     = create_tables_via_athena example_services example_globals
        (JArr [query_t1, config_no_name]) start
   \<and> fst (create_tables_via_athena example_services example_globals
        (JArr [query_t1, config_no_name, query_t1]) start) = Inl (KeyError ''name'')
   \<and> statusCode (fst (lambda_handler
        (example_services
           \<lparr>table_configs_json :=
              Inr (JObj [(''tables'', JArr [config_t1, config_no_name, config_t1])])\<rparr>)
        example_globals environ_complete start)) = 500"
proof -
  have n: "subscript config_no_name ''name'' = Inl (KeyError ''name'')"
    by (simp add: config_no_name_def)
  note inst = config_without_name_aborts_batch [OF n]
  have a: "create_tables example_services example_globals
        (JArr [config_t1, config_no_name, config_t1]) start
     = create_tables example_services example_globals (JArr [config_t1, config_no_name]) start"
    using inst [where pre = "[config_t1]" and post = "[config_t1]" and sv = example_services
        and g = example_globals and s = start, THEN conjunct1]
    by auto
  have b: "create_tables example_services example_globals (JArr [config_t1, config_no_name]) start
     = (Inl (KeyError ''name''),
        \<lparr>world = [JStr ''t1''],
         trace = [GlueCreateTable ''db'' table_input_t1,
                  Log INFO ''Successfully created table: t1'']\<rparr>)"
    by (simp add: run_defs table_input_t1_def)
  have c: "create_tables_via_athena example_services example_globals
        (JArr [query_t1, config_no_name, query_t1]) start
     = create_tables_via_athena example_services example_globals
        (JArr [query_t1, config_no_name]) start"
    using inst [where pre = "[query_t1]" and post = "[query_t1]" and sv = example_services
        and g' = example_globals and s = start, THEN conjunct2, THEN conjunct1]
    by auto
  have d: "fst (create_tables_via_athena example_services example_globals
        (JArr [query_t1, config_no_name]) start) = Inl (KeyError ''name'')"
    by (simp add: run_defs athena_defs)
  let ?sv = "example_services
           \<lparr>table_configs_json :=
              Inr (JObj [(''tables'', JArr [config_t1, config_no_name, config_t1])])\<rparr>"
  have "table_configs_json ?sv = Inr (JObj [(''tables'', JArr [config_t1, config_no_name, config_t1])])
      \<and> subscript (JObj [(''tables'', JArr [config_t1, config_no_name, config_t1])]) ''tables''
        = Inr (JArr ([config_t1] @ config_no_name # [config_t1]))"
    by simp
  then have e: "statusCode (fst (lambda_handler ?sv example_globals environ_complete start)) = 500"
    using inst [where pre = "[config_t1]" and post = "[config_t1]" and sv = ?sv
        and g = example_globals and environ = environ_complete and s = start,
        THEN conjunct2, THEN conjunct2]
    by blast
  from n a b c d e show ?thesis by simp
qed

end
